theory Spec2Isabelle
  imports Complex_Main "HOL-Library.Multiset" "HOL-Library.Word" "HOL-Library.Log_Nat"
begin

section \<open>The GD Farms backend\<close>

text \<open>
  The repository holds two Express servers over a PostgreSQL pool. The full backend
  (the larger source file) serves user initialisation, items, analytics, settings and
  goals; \<^verbatim>\<open>server.js\<close> is a smaller server over a different schema (tables
  \<^verbatim>\<open>users\<close> and \<^verbatim>\<open>items\<close>). Every route handler is an
  anonymous function; the definitions below carry the names the specification gives to
  the operations, and the handlers of \<^verbatim>\<open>server.js\<close> carry the prefix
  \<open>server_\<close>.

  Numbers: a numeric column of the store holds a decimal, modelled by a rational
  (\<open>None\<close> for NULL); a JavaScript number is an IEEE 754 double, modelled below with
  its rounding, its infinities and NaN.
\<close>

subsection \<open>JavaScript numbers\<close>

text \<open>
  \<open>Finite r\<close> is the double of value \<open>r\<close>. The two zeros are one \<open>Finite 0\<close>: a
  reply does not show the sign of a zero, and the analytics divide only by a number they
  have found greater than 0.
\<close>

datatype number = Finite rat | PosInf | NegInf | NaN

text \<open>For \<open>x > 0\<close>: the exponent \<open>e\<close> with \<open>2\<^sup>e \<le> x < 2\<^sup>e\<^sup>+\<^sup>1\<close>.\<close>

definition ilog2 :: "rat \<Rightarrow> int" where
  "ilog2 x = (if 1 \<le> x then bitlen \<lfloor>x\<rfloor> - 1 else - bitlen (\<lceil>1 / x\<rceil> - 1))"

text \<open>The nearest integer, the even one of two.\<close>

definition round_half_even :: "rat \<Rightarrow> int" where
  "round_half_even y =
     (let f = \<lfloor>y\<rfloor>; d = y - of_int f
      in if d < 1 / 2 then f else if 1 / 2 < d then f + 1 else if even f then f else f + 1)"

text \<open>
  Rounding \<open>x > 0\<close> to a significand of 53 bits: to the nearest multiple of
  \<open>2\<^sup>e\<^sup>-\<^sup>5\<^sup>2\<close>, where the exponent is not taken below -1022 (the subnormal
  numbers are the multiples of \<open>2\<^sup>-\<^sup>1\<^sup>0\<^sup>7\<^sup>4\<close>).
\<close>

definition round_magnitude :: "rat \<Rightarrow> rat" where
  "round_magnitude x =
     (let e = max (ilog2 x) (- 1022); u = 2 powi (e - 52)
      in of_int (round_half_even (x / u)) * u)"

text \<open>The double nearest to a rational; a magnitude that rounds to \<open>2\<^sup>1\<^sup>0\<^sup>2\<^sup>4\<close> overflows.\<close>

definition to_double :: "rat \<Rightarrow> number" where
  "to_double x =
     (if x = 0 then Finite 0
      else if 0 < x
      then (if 2 ^ 1024 \<le> round_magnitude x then PosInf else Finite (round_magnitude x))
      else (if 2 ^ 1024 \<le> round_magnitude (- x) then NegInf
            else Finite (- round_magnitude (- x))))"

text \<open>The operators \<^verbatim>\<open>+\<close>, \<^verbatim>\<open>-\<close>, \<^verbatim>\<open>*\<close>, \<^verbatim>\<open>/\<close> and the test \<^verbatim>\<open>> 0\<close> on numbers.\<close>

fun num_neg :: "number \<Rightarrow> number" where
  "num_neg (Finite x) = Finite (- x)"
| "num_neg PosInf = NegInf"
| "num_neg NegInf = PosInf"
| "num_neg NaN = NaN"

fun num_add :: "number \<Rightarrow> number \<Rightarrow> number" where
  "num_add NaN b = NaN"
| "num_add a NaN = NaN"
| "num_add (Finite x) (Finite y) = to_double (x + y)"
| "num_add PosInf NegInf = NaN"
| "num_add NegInf PosInf = NaN"
| "num_add PosInf b = PosInf"
| "num_add NegInf b = NegInf"
| "num_add a b = b"

definition num_sub :: "number \<Rightarrow> number \<Rightarrow> number" where
  "num_sub a b = num_add a (num_neg b)"

fun num_sign :: "number \<Rightarrow> int" where
  "num_sign (Finite x) = (if 0 < x then 1 else if x < 0 then - 1 else 0)"
| "num_sign PosInf = 1"
| "num_sign NegInf = - 1"
| "num_sign NaN = 0"

fun num_mul :: "number \<Rightarrow> number \<Rightarrow> number" where
  "num_mul NaN b = NaN"
| "num_mul a NaN = NaN"
| "num_mul (Finite x) (Finite y) = to_double (x * y)"
| "num_mul a b =
     (if num_sign a * num_sign b = 0 then NaN
      else if 0 < num_sign a * num_sign b then PosInf else NegInf)"

fun num_div :: "number \<Rightarrow> number \<Rightarrow> number" where
  "num_div NaN b = NaN"
| "num_div a NaN = NaN"
| "num_div (Finite x) (Finite y) =
     (if y = 0 then (if x = 0 then NaN else if 0 < x then PosInf else NegInf)
      else to_double (x / y))"
| "num_div (Finite x) b = Finite 0"
| "num_div a (Finite y) = (if 0 \<le> y then a else num_neg a)"
| "num_div a b = NaN"

fun num_gt0 :: "number \<Rightarrow> bool" where
  "num_gt0 (Finite x) = (0 < x)"
| "num_gt0 PosInf = True"
| "num_gt0 a = False"

subsection \<open>Rows\<close>

text \<open>
  The columns an item's caller supplies, the request body that carries them next to
  \<^verbatim>\<open>userId\<close>, and the stored row with the columns the store assigns. A field
  missing from the body is \<^verbatim>\<open>undefined\<close>, which the driver sends as NULL.
  The column \<^verbatim>\<open>id\<close> is \<open>item_id\<close> here.
\<close>

record item_fields =
  name :: "string option"
  category :: "string option"
  quantity_value :: "rat option"
  quantity_unit :: "string option"
  buying_price :: "rat option"
  selling_price :: "rat option"
  description :: "string option"

record item_body = item_fields +
  userId :: "string option"

record item = item_fields +
  item_id :: nat
  user_id :: "string option"
  created_at :: nat
  updated_at :: "nat option"

text \<open>An element of \<^verbatim>\<open>topItems\<close>: the row spread into a new object with its profit.\<close>

record top_item = item +
  profit :: number

subsection \<open>JavaScript built-ins used by the handlers\<close>

text \<open>
  \<^verbatim>\<open>*\<close> and \<^verbatim>\<open>-\<close> convert their operands to numbers:
  \<^verbatim>\<open>null\<close> becomes 0, and the decimal text the driver hands over for a numeric
  column becomes the nearest double (a column of a floating-point type arrives as a
  number, which the rounding leaves as it is).
\<close>

definition ToNumber :: "rat option \<Rightarrow> number" where
  "ToNumber v = (case v of None \<Rightarrow> Finite 0 | Some x \<Rightarrow> to_double x)"

text \<open>
  A stable insertion sort over a relation \<open>before\<close>: an element is put in front of the
  first element it may stand before, so elements that may stand before each other keep
  their order.
\<close>

fun insert_by :: "('a \<Rightarrow> 'a \<Rightarrow> bool) \<Rightarrow> 'a \<Rightarrow> 'a list \<Rightarrow> 'a list" where
  "insert_by before x [] = [x]"
| "insert_by before x (y # ys) =
     (if before x y then x # y # ys else y # insert_by before x ys)"

fun sort_by :: "('a \<Rightarrow> 'a \<Rightarrow> bool) \<Rightarrow> 'a list \<Rightarrow> 'a list" where
  "sort_by before [] = []"
| "sort_by before (x # xs) = insert_by before x (sort_by before xs)"

text \<open>
  \<^verbatim>\<open>Array.prototype.sort(cmp)\<close> is a stable sort: \<open>a\<close> stays before
  \<open>b\<close> unless \<open>cmp a b > 0\<close>; a result NaN counts as 0. Where the results of
  \<open>cmp\<close> do not order the elements, as NaN results can, the language leaves the order
  to the implementation, and this is one such order.
\<close>

definition Array_sort :: "('a \<Rightarrow> 'a \<Rightarrow> number) \<Rightarrow> 'a list \<Rightarrow> 'a list" where
  "Array_sort cmp xs = sort_by (\<lambda>a b. \<not> num_gt0 (cmp a b)) xs"

text \<open>\<^verbatim>\<open>xs.slice(0, n)\<close>: the first \<open>n\<close> elements, all of them when there are fewer.\<close>

definition slice0 :: "nat \<Rightarrow> 'a list \<Rightarrow> 'a list" where
  "slice0 n xs = take n xs"

text \<open>
  \<^verbatim>\<open>x.toFixed(2)\<close> of a finite \<open>x\<close> below \<open>10\<^sup>2\<^sup>1\<close> in magnitude prints
  the integer \<open>n\<close> for which \<open>n / 100\<close> is nearest to the exact value of \<open>x\<close>, the
  larger one of two, with two digits after the point; a negative \<open>x\<close> is printed as the
  minus sign and the digits of \<open>- x\<close>. \<open>toFixed2\<close> is the decimal so printed.
\<close>

definition toFixed2 :: "rat \<Rightarrow> rat" where
  "toFixed2 x =
     (if x < 0 then - (of_int \<lfloor>(- x) * 100 + 1 / 2\<rfloor> / 100)
      else of_int \<lfloor>x * 100 + 1 / 2\<rfloor> / 100)"

text \<open>
  \<^verbatim>\<open>parseFloat(x.toFixed(2))\<close>: \<^verbatim>\<open>parseFloat\<close> reads the printed decimal
  back as the nearest double. From \<open>10\<^sup>2\<^sup>1\<close> on, and for the infinities and NaN,
  \<^verbatim>\<open>toFixed\<close> prints the number as \<^verbatim>\<open>String\<close> does, which reads back as
  the same number.
\<close>

fun parseFloat_toFixed2 :: "number \<Rightarrow> number" where
  "parseFloat_toFixed2 (Finite x) =
     (if 10 ^ 21 \<le> \<bar>x\<bar> then Finite x else to_double (toFixed2 x))"
| "parseFloat_toFixed2 a = a"

subsection \<open>Analytics over the fetched rows\<close>

text \<open>
  The numbers of the reply. \<^verbatim>\<open>res.json\<close> prints an infinity and NaN as
  \<^verbatim>\<open>null\<close>.
\<close>

record analytics =
  totalInvestment :: number
  totalRevenue :: number
  totalProfit :: number
  profitMargin :: number
  totalItems :: nat
  topItems :: "top_item list"

definition with_profit :: "item \<Rightarrow> top_item" where
  "with_profit i =
     item.extend i
       \<lparr>profit = num_mul (num_sub (ToNumber (selling_price i)) (ToNumber (buying_price i)))
                   (ToNumber (quantity_value i))\<rparr>"

definition by_profit_desc :: "top_item \<Rightarrow> top_item \<Rightarrow> number" where
  "by_profit_desc a b = num_sub (profit b) (profit a)"

definition analytics_of :: "item list \<Rightarrow> analytics" where
  "analytics_of rows =
     (let totalInvestment' =
            foldl (\<lambda>sum i. num_add sum
                     (num_mul (ToNumber (buying_price i)) (ToNumber (quantity_value i))))
              (Finite 0) rows;
          totalRevenue' =
            foldl (\<lambda>sum i. num_add sum
                     (num_mul (ToNumber (selling_price i)) (ToNumber (quantity_value i))))
              (Finite 0) rows;
          totalProfit' = num_sub totalRevenue' totalInvestment';
          profitMargin' =
            (if num_gt0 totalInvestment'
             then num_mul (num_div totalProfit' totalInvestment') (Finite 100)
             else Finite 0);
          topItems' = slice0 5 (Array_sort by_profit_desc (map with_profit rows))
      in \<lparr>totalInvestment = totalInvestment', totalRevenue = totalRevenue',
          totalProfit = totalProfit', profitMargin = parseFloat_toFixed2 profitMargin',
          totalItems = length rows, topItems = topItems'\<rparr>)"

subsection \<open>Goals and settings rows\<close>

text \<open>
  The columns \<^verbatim>\<open>name\<close>, \<^verbatim>\<open>description\<close>, \<^verbatim>\<open>id\<close>,
  \<^verbatim>\<open>user_id\<close>, \<^verbatim>\<open>created_at\<close> and \<^verbatim>\<open>updated_at\<close> of these
  tables carry the table's name as a prefix, since the item row has taken the plain names.
\<close>

record goal_fields =
  goal_name :: "string option"
  target_revenue :: "rat option"
  target_profit :: "rat option"
  target_items :: "rat option"
  deadline :: "string option"
  goal_description :: "string option"

record goal_body = goal_fields +
  goal_userId :: "string option"

record goal = goal_fields +
  goal_id :: nat
  goal_user_id :: "string option"
  goal_created_at :: nat

record settings_fields =
  currency :: "string option"
  app_name :: "string option"
  unit_preferences :: "string option"

record settings = settings_fields +
  settings_user_id :: "string option"
  settings_updated_at :: "nat option"

subsection \<open>The store\<close>

text \<open>
  The three tables of the full backend, each a list of rows in the order the store scans
  them: a row is inserted at the end, an update changes a row in place. \<open>connected\<close>
  says whether the pool reaches the database; when it does not, every
  \<^verbatim>\<open>pool.query\<close> rejects.
\<close>

record store =
  items :: "item list"
  user_settings :: "settings list"
  goals :: "goal list"
  connected :: bool

text \<open>
  The table declarations are not among the sources, so what they decide is a parameter:
  which rows each table's constraints admit, and the row that
  \<^verbatim>\<open>INSERT INTO user_settings (user_id)\<close> builds from the column defaults.
  The values the store assigns to a new row (its identifier, and \<^verbatim>\<open>NOW()\<close> for
  its timestamp) are arguments \<open>nid\<close> and \<open>now\<close> of the statements that insert
  or update; a new row has no update time. Identifiers of rows are natural numbers, and so
  are points in time.
\<close>

record schema =
  item_ok :: "item \<Rightarrow> bool"
  goal_ok :: "goal \<Rightarrow> bool"
  settings_ok :: "settings \<Rightarrow> bool"
  settings_defaults :: settings_fields

datatype store_error = StoreError

text \<open>SQL \<^verbatim>\<open>column = $n\<close>: never true when either side is NULL.\<close>

definition sql_eq :: "'a option \<Rightarrow> 'a option \<Rightarrow> bool" where
  "sql_eq column param = (case column of None \<Rightarrow> False | Some v \<Rightarrow> param = Some v)"

text \<open>
  \<^verbatim>\<open>ORDER BY key DESC\<close>. SQL leaves the order of rows with equal keys open; the
  model keeps them in scan order.
\<close>

definition order_by_desc :: "('a \<Rightarrow> nat) \<Rightarrow> 'a list \<Rightarrow> 'a list" where
  "order_by_desc key rows = sort_by (\<lambda>a b. key b \<le> key a) rows"

text \<open>\<^verbatim>\<open>SELECT * FROM user_settings WHERE user_id = $1\<close>\<close>

definition select_settings :: "string \<Rightarrow> store \<Rightarrow> store_error + settings list" where
  "select_settings uid s =
     (if connected s
      then Inr (filter (\<lambda>r. sql_eq (settings_user_id r) (Some uid)) (user_settings s))
      else Inl StoreError)"



text \<open>\<^verbatim>\<open>SELECT * FROM items WHERE user_id = $1 ORDER BY created_at DESC\<close>\<close>

definition select_items_newest_first :: "string \<Rightarrow> store \<Rightarrow> store_error + item list" where
  "select_items_newest_first uid s =
     (if connected s
      then Inr (order_by_desc created_at (filter (\<lambda>r. sql_eq (user_id r) (Some uid)) (items s)))
      else Inl StoreError)"

text \<open>\<^verbatim>\<open>SELECT * FROM items WHERE user_id = $1\<close>\<close>

definition select_items :: "string \<Rightarrow> store \<Rightarrow> store_error + item list" where
  "select_items uid s =
     (if connected s
      then Inr (filter (\<lambda>r. sql_eq (user_id r) (Some uid)) (items s))
      else Inl StoreError)"

text \<open>
  \<^verbatim>\<open>INSERT INTO items (user_id, name, category, quantity_value, quantity_unit,
  buying_price, selling_price, description) VALUES ($1, ..., $8) RETURNING *\<close>
\<close>

definition new_item :: "nat \<Rightarrow> nat \<Rightarrow> item_body \<Rightarrow> item" where
  "new_item nid now b =
     \<lparr>name = name b, category = category b, quantity_value = quantity_value b,
      quantity_unit = quantity_unit b, buying_price = buying_price b,
      selling_price = selling_price b, description = description b,
      item_id = nid, user_id = userId b, created_at = now, updated_at = None\<rparr>"

definition insert_item ::
  "schema \<Rightarrow> nat \<Rightarrow> nat \<Rightarrow> item_body \<Rightarrow> store \<Rightarrow> store_error + item list \<times> store" where
  "insert_item sch nid now b s =
     (if connected s \<and> item_ok sch (new_item nid now b)
      then Inr ([new_item nid now b], s\<lparr>items := items s @ [new_item nid now b]\<rparr>)
      else Inl StoreError)"

text \<open>
  \<^verbatim>\<open>UPDATE items SET name = $1, category = $2, quantity_value = $3,
  quantity_unit = $4, buying_price = $5, selling_price = $6, description = $7,
  updated_at = NOW() WHERE id = $8 AND user_id = $9 RETURNING *\<close>
\<close>

definition item_matches :: "nat \<Rightarrow> string option \<Rightarrow> item \<Rightarrow> bool" where
  "item_matches iid uid r = (item_id r = iid \<and> sql_eq (user_id r) uid)"

definition set_item :: "nat \<Rightarrow> item_body \<Rightarrow> item \<Rightarrow> item" where
  "set_item now b r =
     r\<lparr>name := name b, category := category b, quantity_value := quantity_value b,
       quantity_unit := quantity_unit b, buying_price := buying_price b,
       selling_price := selling_price b, description := description b,
       updated_at := Some now\<rparr>"

definition update_item ::
  "schema \<Rightarrow> nat \<Rightarrow> nat \<Rightarrow> item_body \<Rightarrow> store \<Rightarrow> store_error + item list \<times> store" where
  "update_item sch now iid b s =
     (let hit = filter (item_matches iid (userId b)) (items s) in
      if connected s \<and> list_all (item_ok sch) (map (set_item now b) hit)
      then Inr (map (set_item now b) hit,
                s\<lparr>items := map (\<lambda>r. if item_matches iid (userId b) r then set_item now b r else r)
                                (items s)\<rparr>)
      else Inl StoreError)"

text \<open>\<^verbatim>\<open>DELETE FROM items WHERE id = $1 AND user_id = $2 RETURNING *\<close>\<close>

definition delete_item :: "nat \<Rightarrow> string \<Rightarrow> store \<Rightarrow> store_error + item list \<times> store" where
  "delete_item iid uid s =
     (if connected s
      then Inr (filter (item_matches iid (Some uid)) (items s),
                s\<lparr>items := filter (\<lambda>r. \<not> item_matches iid (Some uid) r) (items s)\<rparr>)
      else Inl StoreError)"

text \<open>
  \<^verbatim>\<open>UPDATE user_settings SET currency = $1, app_name = $2, unit_preferences = $3,
  updated_at = NOW() WHERE user_id = $4 RETURNING *\<close>
\<close>

definition set_settings :: "nat \<Rightarrow> settings_fields \<Rightarrow> settings \<Rightarrow> settings" where
  "set_settings now b r =
     r\<lparr>currency := currency b, app_name := app_name b,
       unit_preferences := unit_preferences b, settings_updated_at := Some now\<rparr>"

definition update_settings ::
  "schema \<Rightarrow> nat \<Rightarrow> string \<Rightarrow> settings_fields \<Rightarrow> store \<Rightarrow> store_error + settings list \<times> store" where
  "update_settings sch now uid b s =
     (let hit = filter (\<lambda>r. sql_eq (settings_user_id r) (Some uid)) (user_settings s) in
      if connected s \<and> list_all (settings_ok sch) (map (set_settings now b) hit)
      then Inr (map (set_settings now b) hit,
                s\<lparr>user_settings :=
                    map (\<lambda>r. if sql_eq (settings_user_id r) (Some uid)
                              then set_settings now b r else r) (user_settings s)\<rparr>)
      else Inl StoreError)"

text \<open>\<^verbatim>\<open>DELETE FROM goals WHERE user_id = $1\<close>\<close>

definition delete_goals :: "string option \<Rightarrow> store \<Rightarrow> store_error + store" where
  "delete_goals uid s =
     (if connected s
      then Inr (s\<lparr>goals := filter (\<lambda>g. \<not> sql_eq (goal_user_id g) uid) (goals s)\<rparr>)
      else Inl StoreError)"

text \<open>
  \<^verbatim>\<open>INSERT INTO goals (user_id, name, target_revenue, target_profit, target_items,
  deadline, description) VALUES ($1, ..., $7) RETURNING *\<close>
\<close>

definition new_goal :: "nat \<Rightarrow> nat \<Rightarrow> goal_body \<Rightarrow> goal" where
  "new_goal nid now b =
     \<lparr>goal_name = goal_name b, target_revenue = target_revenue b,
      target_profit = target_profit b, target_items = target_items b,
      deadline = deadline b, goal_description = goal_description b,
      goal_id = nid, goal_user_id = goal_userId b, goal_created_at = now\<rparr>"

definition insert_goal ::
  "schema \<Rightarrow> nat \<Rightarrow> nat \<Rightarrow> goal_body \<Rightarrow> store \<Rightarrow> store_error + goal list \<times> store" where
  "insert_goal sch nid now b s =
     (if connected s \<and> goal_ok sch (new_goal nid now b)
      then Inr ([new_goal nid now b], s\<lparr>goals := goals s @ [new_goal nid now b]\<rparr>)
      else Inl StoreError)"

text \<open>\<^verbatim>\<open>SELECT * FROM goals WHERE user_id = $1 ORDER BY created_at DESC LIMIT 1\<close>\<close>

definition select_current_goal :: "string \<Rightarrow> store \<Rightarrow> store_error + goal list" where
  "select_current_goal uid s =
     (if connected s
      then Inr (take 1 (order_by_desc goal_created_at
                          (filter (\<lambda>g. sql_eq (goal_user_id g) (Some uid)) (goals s))))
      else Inl StoreError)"

subsection \<open>Route handlers of the full backend\<close>

text \<open>
  What a handler sends: \<open>Ok x\<close> is \<^verbatim>\<open>{success: true, ...x}\<close>,
  \<open>OkMsg x m\<close> the same with \<^verbatim>\<open>message: m\<close>, and \<open>Err code m\<close> is
  \<^verbatim>\<open>res.status(code).json({success: false, message: m})\<close>. A handler returns its
  reply and the store it leaves. The \<^verbatim>\<open>catch\<close> block of a handler is the
  \<open>Inl\<close> branch of each statement.
\<close>

datatype 'a response = Ok 'a | OkMsg 'a string | Err nat string


text \<open>\<^verbatim>\<open>GET /api/items/:userId\<close>\<close>

definition listItems :: "string \<Rightarrow> store \<Rightarrow> item list response" where
  "listItems uid s =
     (case select_items_newest_first uid s of
        Inl e \<Rightarrow> Err 500 ''Failed to fetch items''
      | Inr rows \<Rightarrow> Ok rows)"

text \<open>\<^verbatim>\<open>POST /api/items\<close>: replies with \<^verbatim>\<open>result.rows[0]\<close>.\<close>

definition addItem ::
  "schema \<Rightarrow> nat \<Rightarrow> nat \<Rightarrow> item_body \<Rightarrow> store \<Rightarrow> item option response \<times> store" where
  "addItem sch nid now b s =
     (case insert_item sch nid now b s of
        Inl e \<Rightarrow> (Err 500 ''Failed to add item'', s)
      | Inr (rows, s') \<Rightarrow>
          (OkMsg (case rows of [] \<Rightarrow> None | r # _ \<Rightarrow> Some r) ''Item added successfully'', s'))"

text \<open>\<^verbatim>\<open>PUT /api/items/:id\<close>\<close>

definition updateItem ::
  "schema \<Rightarrow> nat \<Rightarrow> nat \<Rightarrow> item_body \<Rightarrow> store \<Rightarrow> item response \<times> store" where
  "updateItem sch now iid b s =
     (case update_item sch now iid b s of
        Inl e \<Rightarrow> (Err 500 ''Failed to update item'', s)
      | Inr (rows, s') \<Rightarrow>
          (case rows of
             [] \<Rightarrow> (Err 404 ''Item not found'', s')
           | r # _ \<Rightarrow> (OkMsg r ''Item updated successfully'', s')))"

text \<open>\<^verbatim>\<open>DELETE /api/items/:id/:userId\<close>\<close>

definition deleteItem :: "nat \<Rightarrow> string \<Rightarrow> store \<Rightarrow> unit response \<times> store" where
  "deleteItem iid uid s =
     (case delete_item iid uid s of
        Inl e \<Rightarrow> (Err 500 ''Failed to delete item'', s)
      | Inr (rows, s') \<Rightarrow>
          (if length rows = 0 then (Err 404 ''Item not found'', s')
           else (OkMsg () ''Item deleted successfully'', s')))"

text \<open>\<^verbatim>\<open>GET /api/analytics/:userId\<close>\<close>

definition computeAnalytics :: "string \<Rightarrow> store \<Rightarrow> analytics response" where
  "computeAnalytics uid s =
     (case select_items uid s of
        Inl e \<Rightarrow> Err 500 ''Failed to calculate analytics''
      | Inr rows \<Rightarrow> Ok (analytics_of rows))"

text \<open>\<^verbatim>\<open>GET /api/settings/:userId\<close>\<close>

definition getSettings :: "string \<Rightarrow> store \<Rightarrow> settings response" where
  "getSettings uid s =
     (case select_settings uid s of
        Inl e \<Rightarrow> Err 500 ''Failed to fetch settings''
      | Inr rows \<Rightarrow>
          (case rows of
             [] \<Rightarrow> Err 404 ''User settings not found''
           | r # _ \<Rightarrow> Ok r))"

text \<open>\<^verbatim>\<open>PUT /api/settings/:userId\<close>\<close>

definition updateSettings ::
  "schema \<Rightarrow> nat \<Rightarrow> string \<Rightarrow> settings_fields \<Rightarrow> store \<Rightarrow> settings response \<times> store" where
  "updateSettings sch now uid b s =
     (case update_settings sch now uid b s of
        Inl e \<Rightarrow> (Err 500 ''Failed to update settings'', s)
      | Inr (rows, s') \<Rightarrow>
          (case rows of
             [] \<Rightarrow> (Err 404 ''User settings not found'', s')
           | r # _ \<Rightarrow> (OkMsg r ''Settings updated successfully'', s')))"

text \<open>
  \<^verbatim>\<open>POST /api/goals\<close>: two statements, one after the other. When the second
  rejects, the first has already run.
\<close>

definition setGoal ::
  "schema \<Rightarrow> nat \<Rightarrow> nat \<Rightarrow> goal_body \<Rightarrow> store \<Rightarrow> goal option response \<times> store" where
  "setGoal sch nid now b s =
     (case delete_goals (goal_userId b) s of
        Inl e \<Rightarrow> (Err 500 ''Failed to set goal'', s)
      | Inr s1 \<Rightarrow>
          (case insert_goal sch nid now b s1 of
             Inl e \<Rightarrow> (Err 500 ''Failed to set goal'', s1)
           | Inr (rows, s2) \<Rightarrow>
               (OkMsg (case rows of [] \<Rightarrow> None | g # _ \<Rightarrow> Some g) ''Goal set successfully'', s2)))"

text \<open>\<^verbatim>\<open>GET /api/goals/:userId\<close>: \<^verbatim>\<open>result.rows[0] || null\<close>.\<close>

definition getCurrentGoal :: "string \<Rightarrow> store \<Rightarrow> goal option response" where
  "getCurrentGoal uid s =
     (case select_current_goal uid s of
        Inl e \<Rightarrow> Err 500 ''Failed to fetch goal''
      | Inr rows \<Rightarrow> Ok (case rows of [] \<Rightarrow> None | g # _ \<Rightarrow> Some g))"

subsection \<open>The smaller server\<close>

text \<open>
  \<^verbatim>\<open>server.js\<close> keeps a table \<^verbatim>\<open>users\<close> and an
  \<^verbatim>\<open>items\<close> table with other columns; it has no settings and no goals. Its
  names carry the prefix \<open>sv_\<close>. When a statement rejects, its handlers reply with
  status 500 and the text of the error under \<^verbatim>\<open>error\<close>; that text is the
  argument \<open>err\<close>.
\<close>

record server_user =
  sv_id :: string
  sv_user_created_at :: nat

record server_item_body =
  sv_userId :: "string option"
  sv_name :: "string option"
  sv_unit :: "string option"
  sv_cost :: "rat option"
  sv_price :: "rat option"
  sv_quantity :: "rat option"

record server_item =
  sv_item_user_id :: "string option"
  sv_item_name :: "string option"
  sv_item_unit :: "string option"
  sv_item_cost :: "rat option"
  sv_item_price :: "rat option"
  sv_item_quantity :: "rat option"
  sv_item_created_at :: nat

record server_store =
  sv_users :: "server_user list"
  sv_items :: "server_item list"
  sv_connected :: bool

record server_schema =
  sv_user_ok :: "server_user \<Rightarrow> bool"
  sv_item_ok :: "server_item \<Rightarrow> bool"

text \<open>
  \<^verbatim>\<open>POST /api/user/init\<close> of \<^verbatim>\<open>server.js\<close>: the request body is not
  read. \<open>newUserId\<close> is what \<^verbatim>\<open>crypto.randomUUID()\<close> returns.
\<close>

definition server_initUser ::
  "server_schema \<Rightarrow> string \<Rightarrow> string \<Rightarrow> nat \<Rightarrow> server_store \<Rightarrow> string response \<times> server_store" where
  "server_initUser sch err newUserId now s =
     (if sv_connected s \<and> sv_user_ok sch \<lparr>sv_id = newUserId, sv_user_created_at = now\<rparr>
      then (Ok newUserId,
            s\<lparr>sv_users := sv_users s @ [\<lparr>sv_id = newUserId, sv_user_created_at = now\<rparr>]\<rparr>)
      else (Err 500 err, s))"

text \<open>\<^verbatim>\<open>POST /api/items\<close> of \<^verbatim>\<open>server.js\<close>\<close>

definition server_new_item :: "nat \<Rightarrow> server_item_body \<Rightarrow> server_item" where
  "server_new_item now b =
     \<lparr>sv_item_user_id = sv_userId b, sv_item_name = sv_name b, sv_item_unit = sv_unit b,
      sv_item_cost = sv_cost b, sv_item_price = sv_price b, sv_item_quantity = sv_quantity b,
      sv_item_created_at = now\<rparr>"

definition server_addItem ::
  "server_schema \<Rightarrow> string \<Rightarrow> nat \<Rightarrow> server_item_body \<Rightarrow> server_store
     \<Rightarrow> unit response \<times> server_store" where
  "server_addItem sch err now b s =
     (if sv_connected s \<and> sv_item_ok sch (server_new_item now b)
      then (OkMsg () ''Item added successfully'',
            s\<lparr>sv_items := sv_items s @ [server_new_item now b]\<rparr>)
      else (Err 500 err, s))"

text \<open>
  \<^verbatim>\<open>GET /api/items/:userId\<close> of \<^verbatim>\<open>server.js\<close>:
  \<^verbatim>\<open>SELECT * FROM items WHERE user_id = $1\<close>, with no \<^verbatim>\<open>ORDER BY\<close>.
\<close>

definition server_listItems :: "string \<Rightarrow> string \<Rightarrow> server_store \<Rightarrow> server_item list response" where
  "server_listItems err uid s =
     (if sv_connected s
      then Ok (filter (\<lambda>r. sql_eq (sv_item_user_id r) (Some uid)) (sv_items s))
      else Err 500 err)"

subsection \<open>Identifiers\<close>







subsection \<open>Notions the statements use\<close>

text \<open>The rows of a table that belong to a user.\<close>

definition items_of_user :: "string \<Rightarrow> store \<Rightarrow> item list" where
  "items_of_user uid s = filter (\<lambda>r. user_id r = Some uid) (items s)"

definition goals_of_user :: "string \<Rightarrow> store \<Rightarrow> goal list" where
  "goals_of_user uid s = filter (\<lambda>g. goal_user_id g = Some uid) (goals s)"


text \<open>No two goal rows carry the same user.\<close>

definition one_goal_per_user :: "store \<Rightarrow> bool" where
  "one_goal_per_user s = distinct (List.map_filter goal_user_id (goals s))"


text \<open>
  The quantities of the analytics in exact arithmetic, over the decimals the columns hold
  (NULL as 0).
\<close>

definition exact_value :: "rat option \<Rightarrow> rat" where
  "exact_value v = (case v of None \<Rightarrow> 0 | Some x \<Rightarrow> x)"

definition exact_investment :: "item list \<Rightarrow> rat" where
  "exact_investment rows =
     (\<Sum>i\<leftarrow>rows. exact_value (buying_price i) * exact_value (quantity_value i))"

definition exact_revenue :: "item list \<Rightarrow> rat" where
  "exact_revenue rows =
     (\<Sum>i\<leftarrow>rows. exact_value (selling_price i) * exact_value (quantity_value i))"


text \<open>Summing from the left in double arithmetic, as \<^verbatim>\<open>reduce\<close> does from 0.\<close>

definition double_sum :: "number list \<Rightarrow> number" where
  "double_sum xs = foldl num_add (Finite 0) xs"

text \<open>
  A column that holds a whole number below \<open>2\<^sup>5\<^sup>3\<close> in magnitude; rows of such
  columns whose products, added up in magnitude, stay below \<open>2\<^sup>5\<^sup>2\<close>; and a row
  of such columns whose price difference and profit stay below \<open>2\<^sup>5\<^sup>3\<close>.
\<close>

definition whole_column :: "rat option \<Rightarrow> bool" where
  "whole_column v =
     (of_int \<lfloor>exact_value v\<rfloor> = exact_value v \<and> \<bar>exact_value v\<bar> < 2 ^ 53)"

definition whole_row :: "item \<Rightarrow> bool" where
  "whole_row i =
     (whole_column (buying_price i) \<and> whole_column (selling_price i)
      \<and> whole_column (quantity_value i))"

definition small_whole_rows :: "item list \<Rightarrow> bool" where
  "small_whole_rows rows =
     (list_all whole_row rows
      \<and> (\<Sum>i\<leftarrow>rows. \<bar>exact_value (buying_price i) * exact_value (quantity_value i)\<bar>) < 2 ^ 52
      \<and> (\<Sum>i\<leftarrow>rows. \<bar>exact_value (selling_price i) * exact_value (quantity_value i)\<bar>) < 2 ^ 52)"




text \<open>Newest first: no row is older than a row after it.\<close>

definition newest_first :: "('a \<Rightarrow> nat) \<Rightarrow> 'a list \<Rightarrow> bool" where
  "newest_first key rows = sorted_wrt (\<lambda>a b. key b \<le> key a) rows"

subsection \<open>Example data\<close>

text \<open>A schema whose items need a name, and a store with two users.\<close>

definition demo_schema :: schema where
  "demo_schema =
     \<lparr>item_ok = (\<lambda>r. name r \<noteq> None), goal_ok = (\<lambda>g. goal_name g \<noteq> None),
      settings_ok = (\<lambda>r. True),
      settings_defaults = \<lparr>currency = Some ''KES'', app_name = Some ''GD Farms'',
                           unit_preferences = None\<rparr>\<rparr>"

definition maize :: item where
  "maize =
     \<lparr>name = Some ''maize'', category = Some ''grain'', quantity_value = Some 3,
      quantity_unit = Some ''bag'', buying_price = Some 2, selling_price = Some 5,
      description = None, item_id = 1, user_id = Some ''u1'', created_at = 10,
      updated_at = None\<rparr>"

definition beans :: item where
  "beans =
     \<lparr>name = Some ''beans'', category = Some ''pulse'', quantity_value = Some 10,
      quantity_unit = Some ''kg'', buying_price = Some 1, selling_price = Some 1,
      description = None, item_id = 2, user_id = Some ''u1'', created_at = 20,
      updated_at = None\<rparr>"

definition eggs :: item where
  "eggs =
     \<lparr>name = Some ''eggs'', category = Some ''poultry'', quantity_value = Some 30,
      quantity_unit = Some ''tray'', buying_price = Some 4, selling_price = Some 6,
      description = Some ''fresh'', item_id = 3, user_id = Some ''u2'', created_at = 30,
      updated_at = None\<rparr>"

definition old_goal :: goal where
  "old_goal =
     \<lparr>goal_name = Some ''first'', target_revenue = Some 100, target_profit = Some 40,
      target_items = Some 5, deadline = Some ''2025-12-31'', goal_description = None,
      goal_id = 1, goal_user_id = Some ''u1'', goal_created_at = 15\<rparr>"

definition other_goal :: goal where
  "other_goal =
     \<lparr>goal_name = Some ''theirs'', target_revenue = Some 7, target_profit = Some 3,
      target_items = None, deadline = None, goal_description = None,
      goal_id = 2, goal_user_id = Some ''u2'', goal_created_at = 25\<rparr>"

definition u1_settings :: settings where
  "u1_settings =
     \<lparr>currency = Some ''KES'', app_name = Some ''GD Farms'', unit_preferences = None,
      settings_user_id = Some ''u1'', settings_updated_at = None\<rparr>"

definition demo_store :: store where
  "demo_store =
     \<lparr>items = [maize, beans, eggs], user_settings = [u1_settings],
      goals = [old_goal, other_goal], connected = True\<rparr>"

definition tea_body :: item_body where
  "tea_body =
     \<lparr>name = Some ''tea'', category = Some ''leaf'', quantity_value = Some 2,
      quantity_unit = Some ''kg'', buying_price = Some 3, selling_price = Some 8,
      description = Some ''green'', userId = Some ''u1''\<rparr>"

definition goal_body_a :: goal_body where
  "goal_body_a =
     \<lparr>goal_name = Some ''season'', target_revenue = Some 500, target_profit = Some 200,
      target_items = Some 12, deadline = Some ''2026-06-30'', goal_description = None,
      goal_userId = Some ''u1''\<rparr>"

definition goal_body_b :: goal_body where
  "goal_body_b =
     \<lparr>goal_name = Some ''year'', target_revenue = Some 900, target_profit = Some 350,
      target_items = Some 20, deadline = Some ''2026-12-31'', goal_description = Some ''stretch'',
      goal_userId = Some ''u1''\<rparr>"









definition margin_item :: item where
  "margin_item =
     maize\<lparr>buying_price := Some 160, selling_price := Some 183, quantity_value := Some 1\<rparr>"

definition large_item :: item where
  "large_item =
     maize\<lparr>buying_price := Some 1648614742973050, selling_price := Some 1834825778191856,
           quantity_value := Some 1\<rparr>"

text \<open>A store of the smaller server, and two bodies its item route receives.\<close>

definition server_demo_schema :: server_schema where
  "server_demo_schema = \<lparr>sv_user_ok = (\<lambda>u. True), sv_item_ok = (\<lambda>r. True)\<rparr>"

definition server_empty :: server_store where
  "server_empty = \<lparr>sv_users = [], sv_items = [], sv_connected = True\<rparr>"

definition server_body_a :: server_item_body where
  "server_body_a =
     \<lparr>sv_userId = Some ''u1'', sv_name = Some ''maize'', sv_unit = Some ''bag'',
      sv_cost = Some 2, sv_price = Some 5, sv_quantity = Some 3\<rparr>"

definition server_body_b :: server_item_body where
  "server_body_b =
     \<lparr>sv_userId = Some ''u1'', sv_name = Some ''beans'', sv_unit = Some ''kg'',
      sv_cost = Some 1, sv_price = Some 1, sv_quantity = Some 10\<rparr>"

section \<open>Properties\<close>

subsection \<open>Sorting\<close>

lemma mset_insert_by: "mset (insert_by bf x xs) = add_mset x (mset xs)"
  by (induction xs) auto

lemma mset_sort_by: "mset (sort_by bf xs) = mset xs"
  by (induction xs) (auto simp: mset_insert_by)

lemma set_insert_by: "set (insert_by bf x xs) = insert x (set xs)"
  by (induction xs) auto

lemma sorted_insert_by:
  fixes k :: "'a \<Rightarrow> 'k::linorder"
  assumes bf: "\<And>a b. bf a b \<longleftrightarrow> k b \<le> k a"
  shows "sorted_wrt (\<lambda>a b. k b \<le> k a) xs
         \<Longrightarrow> sorted_wrt (\<lambda>a b. k b \<le> k a) (insert_by bf x xs)"
  by (induction xs) (auto simp: bf set_insert_by)

lemma sorted_sort_by:
  fixes k :: "'a \<Rightarrow> 'k::linorder"
  assumes bf: "\<And>a b. bf a b \<longleftrightarrow> k b \<le> k a"
  shows "sorted_wrt (\<lambda>a b. k b \<le> k a) (sort_by bf xs)"
  by (induction xs) (auto intro: sorted_insert_by [OF bf])






subsection \<open>Arithmetic of the analytics\<close>

lemma toFixed2_grid: "\<exists>n::int. toFixed2 x = of_int n / 100"
  unfolding toFixed2_def
  by (cases "x < 0") (auto intro: exI[of _ "- \<lfloor>(- x) * 100 + 1 / 2\<rfloor>"])

lemma round_half_near:
  fixes y :: rat
  shows "\<bar>of_int \<lfloor>y * 100 + 1 / 2\<rfloor> / 100 - y\<bar> \<le> 1 / 200"
proof -
  define n :: rat where "n = of_int \<lfloor>y * 100 + 1 / 2\<rfloor>"
  have lo: "n \<le> y * 100 + 1 / 2" unfolding n_def by (rule of_int_floor_le)
  have hi: "y * 100 + 1 / 2 < n + 1" unfolding n_def by linarith
  have "\<bar>n / 100 - y\<bar> \<le> 1 / 200" using lo hi by (simp only: abs_le_iff) linarith
  then show ?thesis unfolding n_def .
qed

lemma toFixed2_near: "\<bar>toFixed2 x - x\<bar> \<le> 1 / 200"
proof (cases "x < 0")
  case True
  have "\<bar>of_int \<lfloor>(- x) * 100 + 1 / 2\<rfloor> / 100 - (- x)\<bar> \<le> 1 / 200"
    by (rule round_half_near)
  then have "\<bar>- (of_int \<lfloor>(- x) * 100 + 1 / 2\<rfloor> / 100) - x\<bar> \<le> 1 / 200"
    by (simp only: abs_le_iff) linarith
  then show ?thesis using True by (simp only: toFixed2_def if_True)
next
  case False
  then show ?thesis using round_half_near [of x] by (simp add: toFixed2_def)
qed

subsection \<open>Rounding to a double\<close>

lemma powi_nonneg: "0 \<le> k \<Longrightarrow> (2::rat) powi k = 2 ^ nat k"
  by (rule power_int_nonneg_exp)

lemma powi_neg: "0 \<le> k \<Longrightarrow> (2::rat) powi (- k) = 1 / 2 ^ nat k"
  by (simp only: power_int_minus_divide power_int_nonneg_exp)

lemma powi_add: "(2::rat) powi a * 2 powi b = 2 powi (a + b)"
  by (rule power_int_add [symmetric]) simp

text \<open>The exponent found for \<open>x\<close> is not too large.\<close>

lemma ilog2_lower:
  assumes "0 < x"
  shows "2 powi (ilog2 x) \<le> x"
proof (cases "1 \<le> x")
  case True
  define m where "m = \<lfloor>x\<rfloor>"
  have m: "0 < m" unfolding m_def using True by simp
  have nn: "0 \<le> bitlen m - 1" using m by (simp add: bitlen_alt_def)
  have "2 ^ nat (bitlen m - 1) \<le> m" using bitlen_bounds [OF m] by simp
  then have "(2::rat) ^ nat (bitlen m - 1) \<le> of_int m"
    by (metis of_int_le_iff of_int_numeral of_int_power)
  also have "\<dots> \<le> x" unfolding m_def by simp
  finally have "(2::rat) ^ nat (bitlen m - 1) \<le> x" .
  moreover have "ilog2 x = bitlen m - 1" using True by (simp add: ilog2_def m_def)
  ultimately show ?thesis using nn by (simp only: powi_nonneg)
next
  case False
  define m where "m = \<lceil>1 / x\<rceil> - 1"
  have "1 < 1 / x" using False assms by simp
  then have m: "0 < m" unfolding m_def by linarith
  have "m < 2 ^ nat (bitlen m)" using bitlen_bounds [OF m] by simp
  then have "m + 1 \<le> 2 ^ nat (bitlen m)" by simp
  then have "(of_int (m + 1) :: rat) \<le> 2 ^ nat (bitlen m)"
    by (metis of_int_le_iff of_int_numeral of_int_power)
  moreover have "1 / x \<le> of_int (m + 1)" unfolding m_def by simp
  ultimately have "1 / x \<le> 2 ^ nat (bitlen m)" by simp
  then have "1 / 2 ^ nat (bitlen m) \<le> x"
    using assms by (simp add: field_simps)
  moreover have "ilog2 x = - bitlen m" using False by (simp add: ilog2_def m_def)
  ultimately show ?thesis by (simp only: powi_neg [OF bitlen_nonneg])
qed

lemma round_half_even_near: "\<bar>of_int (round_half_even y) - y\<bar> \<le> 1 / 2"
proof -
  define f where "f = \<lfloor>y\<rfloor>"
  have lo: "of_int f \<le> y" and hi: "y < of_int f + 1" unfolding f_def by linarith+
  show ?thesis
    unfolding round_half_even_def Let_def f_def [symmetric]
    using lo hi by (auto simp: abs_le_iff)
qed

lemma round_half_even_int [simp]: "round_half_even (of_int n) = n"
  by (simp add: round_half_even_def)


lemma ilog2_int:
  assumes "0 < n"
  shows "ilog2 (of_int n) = bitlen n - 1"
  using assms by (simp add: ilog2_def)

text \<open>Whole numbers below \<open>2\<^sup>5\<^sup>3\<close> in magnitude are doubles.\<close>

lemma round_magnitude_int:
  assumes "0 < n" and "n < 2 ^ 53"
  shows "round_magnitude (of_int n) = of_int n"
proof -
  define e where "e = bitlen n - 1"
  have "bitlen n \<le> 53" using assms by (simp add: bitlen_le_iff_power)
  moreover have "0 < bitlen n" using assms(1) by (simp add: bitlen_alt_def)
  ultimately have e: "0 \<le> e" "e \<le> 52" unfolding e_def by simp_all
  define k where "k = nat (52 - e)"
  have "e - 52 = - (52 - e)" by simp
  then have u: "(2::rat) powi (e - 52) = 1 / 2 ^ k"
    using e unfolding k_def by (simp only: powi_neg)
  have "of_int n / (1 / 2 ^ k) = (of_int (n * 2 ^ k) :: rat)" by simp
  then have "round_half_even (of_int n / (1 / 2 ^ k)) = n * 2 ^ k"
    by (simp only: round_half_even_int)
  moreover have "max (ilog2 (of_int n)) (- 1022) = e"
    using e by (simp add: ilog2_int [OF assms(1)] e_def)
  ultimately show ?thesis
    by (simp add: round_magnitude_def Let_def u)
qed

lemma to_double_int:
  assumes "\<bar>n\<bar> < 2 ^ 53"
  shows "to_double (of_int n) = Finite (of_int n)"
proof -
  have small: "\<not> (2::rat) ^ 1024 \<le> of_int m" if "0 < m" "m < 2 ^ 53" for m :: int
  proof -
    have "(of_int m :: rat) < of_int (2 ^ 53)" using that by (simp only: of_int_less_iff)
    also have "\<dots> < 2 ^ 1024" by simp
    finally show ?thesis by simp
  qed
  consider "n = 0" | "0 < n" | "n < 0" by linarith
  then show ?thesis
  proof cases
    case 1
    then show ?thesis by (simp add: to_double_def)
  next
    case 2
    with assms have "n < 2 ^ 53" by simp
    with 2 show ?thesis
      by (simp add: to_double_def round_magnitude_int small)
  next
    case 3
    with assms have m: "0 < - n" "- n < 2 ^ 53" by simp_all
    have "round_magnitude (of_int (- n)) = of_int (- n)"
      using m by (rule round_magnitude_int)
    then have "round_magnitude (- of_int n) = - of_int n" by simp
    with 3 small [OF m] show ?thesis
      by (simp add: to_double_def)
  qed
qed

lemma to_double_whole:
  assumes "of_int \<lfloor>x\<rfloor> = x" and "\<bar>x\<bar> < 2 ^ 53"
  shows "to_double x = Finite x"
proof -
  have "\<bar>(of_int \<lfloor>x\<rfloor> :: rat)\<bar> < 2 ^ 53" using assms(2) by (simp only: assms(1))
  then have "(of_int \<bar>\<lfloor>x\<rfloor>\<bar> :: rat) < of_int (2 ^ 53)" by simp
  then have "\<bar>\<lfloor>x\<rfloor>\<bar> < 2 ^ 53" by (simp only: of_int_less_iff)
  then have "to_double (of_int \<lfloor>x\<rfloor>) = Finite (of_int \<lfloor>x\<rfloor>)" by (rule to_double_int)
  then show ?thesis by (simp only: assms(1))
qed







text \<open>Above the subnormal range one rounding changes a value by at most one part in \<open>2\<^sup>5\<^sup>3\<close>.\<close>

lemma round_magnitude_error:
  assumes "0 < x" and "1 / 2 ^ 1022 \<le> x"
  shows "\<bar>round_magnitude x - x\<bar> \<le> x / 2 ^ 53"
proof -
  define e where "e = max (ilog2 x) (- 1022)"
  define u :: rat where "u = 2 powi (e - 52)"
  have upos: "0 < u" unfolding u_def by simp
  have "2 powi e \<le> x"
  proof (cases "- 1022 \<le> ilog2 x")
    case True
    then have "e = ilog2 x" unfolding e_def by simp
    then show ?thesis using ilog2_lower [OF assms(1)] by simp
  next
    case False
    then have "e = - 1022" unfolding e_def by simp
    then show ?thesis using assms(2) powi_neg [of 1022] by simp
  qed
  moreover have "(2::rat) powi (e - 52) * 2 powi 52 = 2 powi e"
    using powi_add [of "e - 52" 52] by simp
  moreover have "(2::rat) powi 52 = 2 ^ 52" by (simp only: power_int_numeral)
  ultimately have ux: "u * 2 ^ 52 \<le> x" unfolding u_def by (simp only:)
  have "\<bar>of_int (round_half_even (x / u)) - x / u\<bar> \<le> 1 / 2"
    by (rule round_half_even_near)
  then have "\<bar>of_int (round_half_even (x / u)) - x / u\<bar> * u \<le> 1 / 2 * u"
    using upos by (simp only: mult_le_cancel_right_pos)
  moreover have "\<bar>of_int (round_half_even (x / u)) - x / u\<bar> * u
      = \<bar>of_int (round_half_even (x / u)) * u - x\<bar>"
  proof -
    have "\<bar>of_int (round_half_even (x / u)) - x / u\<bar> * u
        = \<bar>(of_int (round_half_even (x / u)) - x / u) * u\<bar>"
      using upos by (simp add: abs_mult)
    also have "(of_int (round_half_even (x / u)) - x / u) * u
        = of_int (round_half_even (x / u)) * u - x"
      using upos by (simp add: left_diff_distrib)
    finally show ?thesis .
  qed
  ultimately have "\<bar>round_magnitude x - x\<bar> \<le> u / 2"
    by (simp add: round_magnitude_def Let_def e_def [symmetric] u_def [symmetric])
  also have "u / 2 \<le> x / 2 ^ 53" using ux by (simp add: field_simps)
  finally show ?thesis .
qed

lemma to_double_error:
  assumes "to_double x = Finite r" and "1 / 2 ^ 1022 \<le> \<bar>x\<bar>"
  shows "\<bar>r - x\<bar> \<le> \<bar>x\<bar> / 2 ^ 53"
proof -
  have "x \<noteq> 0"
  proof
    assume "x = 0"
    with assms(2) show False by simp
  qed
  then consider "0 < x" | "x < 0" by linarith
  then show ?thesis
  proof cases
    case 1
    with assms have "r = round_magnitude x" by (auto simp: to_double_def split: if_splits)
    with 1 assms(2) show ?thesis using round_magnitude_error [of x] by simp
  next
    case 2
    with assms have "r = - round_magnitude (- x)" by (auto simp: to_double_def split: if_splits)
    moreover have "\<bar>round_magnitude (- x) - (- x)\<bar> \<le> (- x) / 2 ^ 53"
      using 2 assms(2) by (intro round_magnitude_error) simp_all
    ultimately show ?thesis using 2 by (simp add: abs_le_iff)
  qed
qed

text \<open>Reading off a rounding that has been computed.\<close>

lemma to_double_posI:
  assumes "0 < x" and "round_magnitude x = r" and "r < 2 ^ 1024"
  shows "to_double x = Finite r"
  using assms by (simp add: to_double_def)

lemma to_double_negI:
  assumes "x < 0" and "round_magnitude (- x) = r" and "r < 2 ^ 1024"
  shows "to_double x = Finite (- r)"
  using assms by (simp add: to_double_def)

lemma toFixed2_zero: "toFixed2 0 = 0"
  by code_simp

lemma parseFloat_toFixed2_zero: "parseFloat_toFixed2 (Finite 0) = Finite 0"
  by (simp add: toFixed2_zero to_double_def)

text \<open>Below the overflow threshold and above the subnormal range a rounding is finite and close.\<close>

lemma to_double_finite:
  assumes "1 / 2 ^ 1022 \<le> \<bar>x\<bar>" and "\<bar>x\<bar> \<le> 2 ^ 1023"
  shows "\<exists>r. to_double x = Finite r \<and> \<bar>r - x\<bar> \<le> \<bar>x\<bar> / 2 ^ 53"
proof -
  have below: "r < 2 ^ 1024" if "\<bar>r - y\<bar> \<le> y / 2 ^ 53" "y \<le> 2 ^ 1023" "0 < y" for r y :: rat
  proof -
    have "r \<le> y + y / 2 ^ 53" using that(1) by (simp only: abs_le_iff) linarith
    also have "\<dots> \<le> 2 ^ 1023 + 2 ^ 1023 / 2 ^ 53" using that(2) by (simp add: field_simps)
    also have "\<dots> < 2 ^ 1024" by simp
    finally show ?thesis .
  qed
  have "x \<noteq> 0"
  proof
    assume "x = 0"
    with assms(1) show False by simp
  qed
  then consider "0 < x" | "x < 0" by linarith
  then have "\<exists>r. to_double x = Finite r"
  proof cases
    case 1
    then have x: "1 / 2 ^ 1022 \<le> x" "x \<le> 2 ^ 1023" using assms by simp_all
    have "\<bar>round_magnitude x - x\<bar> \<le> x / 2 ^ 53"
      using 1 x(1) by (rule round_magnitude_error)
    then have "round_magnitude x < 2 ^ 1024" using x(2) 1 by (rule below)
    with 1 show ?thesis by (simp add: to_double_def)
  next
    case 2
    then have x: "1 / 2 ^ 1022 \<le> - x" "- x \<le> 2 ^ 1023" "0 < - x" using assms by simp_all
    have "\<bar>round_magnitude (- x) - (- x)\<bar> \<le> (- x) / 2 ^ 53"
      using x(3,1) by (rule round_magnitude_error)
    then have "round_magnitude (- x) < 2 ^ 1024" using x(2,3) by (rule below)
    with 2 show ?thesis by (simp add: to_double_def)
  qed
  then obtain r where r: "to_double x = Finite r" ..
  then have "\<bar>r - x\<bar> \<le> \<bar>x\<bar> / 2 ^ 53" using assms(1) by (rule to_double_error)
  with r show ?thesis by blast
qed

text \<open>The margin before \<^verbatim>\<open>toFixed\<close>: two roundings away from the exact value.\<close>

lemma two_roundings:
  fixes A t q r m :: rat
  assumes "\<bar>q\<bar> = A" and "\<bar>r - q\<bar> \<le> t" and "t \<le> A"
    and "\<bar>m - r * 100\<bar> \<le> 100 * \<bar>r\<bar> * e" and "0 \<le> e" and "A * e = t"
  shows "\<bar>m - 100 * q\<bar> \<le> 300 * t"
proof -
  have r: "\<bar>r\<bar> \<le> A + t" using assms(1,2) by linarith
  have "0 \<le> A" using assms(1) by (metis abs_ge_zero)
  have "0 \<le> t" using assms(2) by linarith
  have "100 * \<bar>r\<bar> * e \<le> 100 * (A + t) * e"
    using r assms(5) by (intro mult_right_mono) simp_all
  also have "\<dots> = 100 * t + 100 * (t * e)"
    by (simp add: assms(6) [symmetric] algebra_simps)
  finally have m: "\<bar>m - r * 100\<bar> \<le> 100 * t + 100 * (t * e)" using assms(4) by linarith
  have "t * e \<le> A * e" using assms(3,5) by (rule mult_right_mono)
  then have "t * e \<le> t" by (simp only: assms(6))
  with m have "\<bar>m - r * 100\<bar> \<le> 200 * t" by linarith
  moreover have "\<bar>r * 100 - 100 * q\<bar> \<le> 100 * t" using assms(2) by linarith
  ultimately show ?thesis by linarith
qed

lemma margin_error:
  assumes "i \<noteq> 0" and "1 / 2 ^ 1022 \<le> \<bar>p / i\<bar>" and "\<bar>p / i\<bar> \<le> 2 ^ 1000"
  shows "\<exists>m. num_mul (num_div (Finite p) (Finite i)) (Finite 100) = Finite m
           \<and> \<bar>m - 100 * p / i\<bar> \<le> \<bar>100 * p / i\<bar> / 2 ^ 51"
proof -
  define q where "q = p / i"
  define A where "A = \<bar>q\<bar>"
  define e :: rat where "e = 1 / 2 ^ 53"
  define t where "t = A * e"
  have A: "1 / 2 ^ 1022 \<le> A" "A \<le> 2 ^ 1000" using assms(2,3) by (simp_all add: A_def q_def)
  have "(0::rat) < 1 / 2 ^ 1022" by simp
  then have Apos: "0 < A" using A(1) by (rule less_le_trans)
  have e: "0 \<le> e" "e \<le> 1 / 2" unfolding e_def by simp_all
  have te: "x / 2 ^ 53 = x * e" for x :: rat unfolding e_def by simp
  have "A * e \<le> A * (1 / 2)" using e(2) Apos by (intro mult_left_mono) simp_all
  then have t: "t \<le> A / 2" "0 \<le> t" unfolding t_def using Apos e(1) by simp_all
  have "A \<le> 2 ^ 1023"
  proof -
    have "(2::rat) ^ 1000 \<le> 2 ^ 1023" by (rule power_increasing) simp_all
    with A(2) show ?thesis by (rule order_trans)
  qed
  with A(1) have "\<exists>r. to_double q = Finite r \<and> \<bar>r - q\<bar> \<le> \<bar>q\<bar> / 2 ^ 53"
    unfolding A_def by (rule to_double_finite)
  then obtain r where r: "to_double q = Finite r" and rq: "\<bar>r - q\<bar> \<le> t"
    unfolding A_def t_def te by blast
  have rb: "\<bar>r\<bar> \<le> 2 * A" "A / 2 \<le> \<bar>r\<bar>"
    using rq t unfolding A_def by linarith+
  have r100: "\<bar>r * 100\<bar> = 100 * \<bar>r\<bar>" by (simp add: abs_mult)
  have "(200::rat) \<le> 2 ^ 8" by simp
  then have "200 * (2::rat) ^ 1000 \<le> 2 ^ 8 * 2 ^ 1000" by (rule mult_right_mono) simp
  also have "\<dots> = (2::rat) ^ 1008" by (simp only: power_add [symmetric]) simp
  also have "\<dots> \<le> (2::rat) ^ 1023" by (rule power_increasing) simp_all
  finally have big: "200 * (2::rat) ^ 1000 \<le> 2 ^ 1023" .
  have "\<bar>r * 100\<bar> \<le> 200 * A" using rb(1) r100 by linarith
  also have "\<dots> \<le> 200 * 2 ^ 1000" using A(2) by (intro mult_left_mono) simp_all
  finally have "\<bar>r * 100\<bar> \<le> 2 ^ 1023" using big by (rule order_trans)
  moreover have "1 / 2 ^ 1022 \<le> \<bar>r * 100\<bar>" using A(1) rb(2) r100 Apos by linarith
  ultimately have "\<exists>m. to_double (r * 100) = Finite m
      \<and> \<bar>m - r * 100\<bar> \<le> \<bar>r * 100\<bar> / 2 ^ 53"
    by (rule to_double_finite [rotated])
  then obtain m where m: "to_double (r * 100) = Finite m"
    and mr: "\<bar>m - r * 100\<bar> \<le> \<bar>r * 100\<bar> * e"
    unfolding te by blast
  have mr': "\<bar>m - r * 100\<bar> \<le> 100 * \<bar>r\<bar> * e" using mr by (simp only: r100)
  have "t \<le> A" using t Apos by linarith
  with rq have "\<bar>m - 100 * q\<bar> \<le> 300 * t"
    using two_roundings [of q A r t m e] mr' e(1) by (simp add: A_def t_def)
  also have "300 * t \<le> 400 * t" using t(2) by simp
  also have "400 * t = (100 * A) / 2 ^ 51" unfolding t_def e_def by simp
  also have "100 * A = \<bar>100 * q\<bar>" by (simp add: A_def abs_mult)
  finally have "\<bar>m - 100 * q\<bar> \<le> \<bar>100 * q\<bar> / 2 ^ 51" .
  moreover have "num_mul (num_div (Finite p) (Finite i)) (Finite 100) = Finite m"
    using assms(1) r m by (simp add: q_def)
  ultimately show ?thesis by (auto simp: q_def)
qed

lemma margin_rounded:
  assumes "i \<noteq> 0" and "p = 0 \<or> 1 / 2 ^ 1022 \<le> \<bar>p / i\<bar>" and "\<bar>p / i\<bar> \<le> 10 ^ 18"
  shows "\<exists>m n. num_mul (num_div (Finite p) (Finite i)) (Finite 100) = Finite m
           \<and> \<bar>m - 100 * p / i\<bar> \<le> \<bar>100 * p / i\<bar> / 2 ^ 51
           \<and> parseFloat_toFixed2 (Finite m) = to_double (of_int n / 100)
           \<and> \<bar>of_int n / 100 - m\<bar> \<le> 1 / 200"
proof -
  have "\<exists>m. num_mul (num_div (Finite p) (Finite i)) (Finite 100) = Finite m
           \<and> \<bar>m - 100 * p / i\<bar> \<le> \<bar>100 * p / i\<bar> / 2 ^ 51"
  proof (cases "p = 0")
    case True
    then show ?thesis using assms(1) by (simp add: to_double_def)
  next
    case False
    then have lo: "1 / 2 ^ 1022 \<le> \<bar>p / i\<bar>" using assms(2) by simp
    have "(10::rat) ^ 18 \<le> 2 ^ 1000" by simp
    with assms(3) have "\<bar>p / i\<bar> \<le> 2 ^ 1000" by (rule order_trans)
    with assms(1) lo show ?thesis by (rule margin_error)
  qed
  then obtain m where m: "num_mul (num_div (Finite p) (Finite i)) (Finite 100) = Finite m"
    and near: "\<bar>m - 100 * p / i\<bar> \<le> \<bar>100 * p / i\<bar> / 2 ^ 51" by blast
  define A where "A = \<bar>100 * p / i\<bar>"
  have "A = 100 * \<bar>p / i\<bar>" by (simp add: A_def abs_mult)
  then have A: "A \<le> 10 ^ 20" "0 \<le> A" using assms(3) by simp_all
  have "A / 2 ^ 51 \<le> A" using A(2) by (simp add: field_simps)
  with near have "\<bar>m\<bar> \<le> 2 * A" unfolding A_def by linarith
  with A(1) have "\<bar>m\<bar> < 10 ^ 21" by simp
  then have "parseFloat_toFixed2 (Finite m) = to_double (toFixed2 m)" by simp
  moreover obtain n :: int where n: "toFixed2 m = of_int n / 100"
    using toFixed2_grid by blast
  moreover have "\<bar>toFixed2 m - m\<bar> \<le> 1 / 200" by (rule toFixed2_near)
  ultimately have "parseFloat_toFixed2 (Finite m) = to_double (of_int n / 100)
      \<and> \<bar>of_int n / 100 - m\<bar> \<le> 1 / 200" by (simp only: simp_thms)
  with m near show ?thesis by blast
qed

subsection \<open>The shape of a generated identifier\<close>





subsection \<open>Analytics\<close>

lemma sql_eq_Some: "sql_eq c (Some v) \<longleftrightarrow> c = Some v"
  by (cases c) (auto simp: sql_eq_def)

lemma computeAnalytics_connected:
  "connected s \<Longrightarrow> computeAnalytics uid s = Ok (analytics_of (items_of_user uid s))"
  by (simp add: computeAnalytics_def select_items_def items_of_user_def sql_eq_Some)

lemma totalInvestment_analytics_of:
  "totalInvestment (analytics_of rows) =
     double_sum (map (\<lambda>i. num_mul (ToNumber (buying_price i)) (ToNumber (quantity_value i))) rows)"
  by (simp add: analytics_of_def Let_def double_sum_def foldl_map)

lemma totalRevenue_analytics_of:
  "totalRevenue (analytics_of rows) =
     double_sum (map (\<lambda>i. num_mul (ToNumber (selling_price i)) (ToNumber (quantity_value i))) rows)"
  by (simp add: analytics_of_def Let_def double_sum_def foldl_map)

lemma totalProfit_analytics_of:
  "totalProfit (analytics_of rows) =
     num_sub (totalRevenue (analytics_of rows)) (totalInvestment (analytics_of rows))"
  by (simp add: analytics_of_def Let_def)

lemma profitMargin_analytics_of:
  "profitMargin (analytics_of rows) =
     parseFloat_toFixed2
       (if num_gt0 (totalInvestment (analytics_of rows))
        then num_mul (num_div (totalProfit (analytics_of rows))
                        (totalInvestment (analytics_of rows))) (Finite 100)
        else Finite 0)"
  by (simp add: analytics_of_def Let_def)


lemma items_of_user_demo: "items_of_user ''u1'' demo_store = [maize, beans]"
  by (simp add: items_of_user_def demo_store_def maize_def beans_def eggs_def)

text \<open>Whole numbers: where double arithmetic is exact.\<close>

lemma whole_Ints: "of_int \<lfloor>x\<rfloor> = x \<longleftrightarrow> x \<in> \<int>" for x :: rat
  by (auto simp: Ints_def)

lemma to_double_Ints:
  assumes "x \<in> \<int>" and "\<bar>x\<bar> < 2 ^ 53"
  shows "to_double x = Finite x"
  using assms by (intro to_double_whole) (simp_all only: whole_Ints)

lemma ToNumber_whole: "whole_column v \<Longrightarrow> ToNumber v = Finite (exact_value v)"
  by (cases v)
    (simp_all add: whole_column_def ToNumber_def exact_value_def to_double_whole
      del: of_int_floor_cancel)

lemma whole_column_Ints: "whole_column v \<Longrightarrow> exact_value v \<in> \<int>"
  by (simp only: whole_column_def whole_Ints)

lemma le_sum_list_abs:
  fixes f :: "'a \<Rightarrow> rat"
  shows "x \<in> set xs \<Longrightarrow> \<bar>f x\<bar> \<le> (\<Sum>i\<leftarrow>xs. \<bar>f i\<bar>)"
proof (induction xs)
  case Nil
  then show ?case by simp
next
  case (Cons y ys)
  have "0 \<le> (\<Sum>i\<leftarrow>ys. \<bar>f i\<bar>)" by (rule sum_list_nonneg) auto
  with Cons show ?case by auto
qed

lemma abs_sum_list_le:
  fixes f :: "'a \<Rightarrow> rat"
  shows "\<bar>\<Sum>i\<leftarrow>xs. f i\<bar> \<le> (\<Sum>i\<leftarrow>xs. \<bar>f i\<bar>)"
  by (induction xs) (auto simp: abs_le_iff)

lemma sum_list_Ints:
  fixes f :: "'a \<Rightarrow> rat"
  shows "\<forall>i\<in>set xs. f i \<in> \<int> \<Longrightarrow> (\<Sum>i\<leftarrow>xs. f i) \<in> \<int>"
  by (induction xs) simp_all

lemma foldl_num_add_exact:
  assumes "\<forall>x\<in>set xs. x \<in> \<int>" and "a \<in> \<int>" and "\<bar>a\<bar> + (\<Sum>x\<leftarrow>xs. \<bar>x\<bar>) < 2 ^ 53"
  shows "foldl num_add (Finite a) (map Finite xs) = Finite (a + sum_list xs)"
  using assms
proof (induction xs arbitrary: a)
  case Nil
  then show ?case by simp
next
  case (Cons x xs)
  have nn: "0 \<le> (\<Sum>x\<leftarrow>xs. \<bar>x\<bar>)" by (rule sum_list_nonneg) auto
  have ax: "a + x \<in> \<int>" using Cons.prems by simp
  have "\<bar>a + x\<bar> \<le> \<bar>a\<bar> + \<bar>x\<bar>" by (rule abs_triangle_ineq)
  with Cons.prems(3) have b: "\<bar>a + x\<bar> + (\<Sum>x\<leftarrow>xs. \<bar>x\<bar>) < 2 ^ 53" by simp
  with nn have "\<bar>a + x\<bar> < 2 ^ 53" by linarith
  with ax have "num_add (Finite a) (Finite x) = Finite (a + x)"
    by (simp add: to_double_Ints)
  moreover have "foldl num_add (Finite (a + x)) (map Finite xs) = Finite (a + x + sum_list xs)"
    using Cons.prems(1) ax b by (intro Cons.IH) simp_all
  ultimately show ?case by (simp add: add.assoc)
qed

lemma double_sum_exact:
  assumes "\<forall>i\<in>set rows. f i \<in> \<int>" and "(\<Sum>i\<leftarrow>rows. \<bar>f i\<bar>) < 2 ^ 53"
  shows "double_sum (map (\<lambda>i. Finite (f i)) rows) = Finite (\<Sum>i\<leftarrow>rows. f i)"
proof -
  have "foldl num_add (Finite 0) (map Finite (map f rows)) = Finite (0 + sum_list (map f rows))"
    using assms by (intro foldl_num_add_exact) (simp_all add: comp_def)
  then show ?thesis by (simp add: double_sum_def comp_def)
qed

lemma product_whole:
  assumes "whole_column v" and "whole_column w"
    and "\<bar>exact_value v * exact_value w\<bar> < 2 ^ 53"
  shows "num_mul (ToNumber v) (ToNumber w) = Finite (exact_value v * exact_value w)"
proof -
  have "exact_value v * exact_value w \<in> \<int>"
    using assms(1,2) by (intro Ints_mult whole_column_Ints)
  with assms show ?thesis by (simp add: ToNumber_whole to_double_Ints)
qed

lemma products_whole:
  assumes "\<forall>i\<in>set rows. whole_column (c i) \<and> whole_column (quantity_value i)"
    and "(\<Sum>i\<leftarrow>rows. \<bar>exact_value (c i) * exact_value (quantity_value i)\<bar>) < 2 ^ 52"
  shows "double_sum (map (\<lambda>i. num_mul (ToNumber (c i)) (ToNumber (quantity_value i))) rows)
         = Finite (\<Sum>i\<leftarrow>rows. exact_value (c i) * exact_value (quantity_value i))"
proof -
  let ?f = "\<lambda>i. exact_value (c i) * exact_value (quantity_value i)"
  have small: "(\<Sum>i\<leftarrow>rows. \<bar>?f i\<bar>) < 2 ^ 53" using assms(2) by simp
  have each: "num_mul (ToNumber (c i)) (ToNumber (quantity_value i)) = Finite (?f i)"
    if "i \<in> set rows" for i
  proof -
    have "\<bar>?f i\<bar> \<le> (\<Sum>i\<leftarrow>rows. \<bar>?f i\<bar>)" using that by (rule le_sum_list_abs)
    with small have "\<bar>?f i\<bar> < 2 ^ 53" by linarith
    with assms(1) that show ?thesis by (simp add: product_whole)
  qed
  have "map (\<lambda>i. num_mul (ToNumber (c i)) (ToNumber (quantity_value i))) rows
        = map (\<lambda>i. Finite (?f i)) rows"
    using each by simp
  moreover have "\<forall>i\<in>set rows. ?f i \<in> \<int>"
    using assms(1) by (auto intro!: Ints_mult whole_column_Ints)
  ultimately show ?thesis using small by (simp only: double_sum_exact)
qed

lemma totals_exact:
  assumes "small_whole_rows rows"
  shows "totalInvestment (analytics_of rows) = Finite (exact_investment rows)"
    and "totalRevenue (analytics_of rows) = Finite (exact_revenue rows)"
    and "totalProfit (analytics_of rows) = Finite (exact_revenue rows - exact_investment rows)"
proof -
  have rows: "\<forall>i\<in>set rows. whole_row i"
    and bi: "(\<Sum>i\<leftarrow>rows. \<bar>exact_value (buying_price i) * exact_value (quantity_value i)\<bar>) < 2 ^ 52"
    and br: "(\<Sum>i\<leftarrow>rows. \<bar>exact_value (selling_price i) * exact_value (quantity_value i)\<bar>) < 2 ^ 52"
    using assms by (simp_all add: small_whole_rows_def list_all_iff)
  show ti: "totalInvestment (analytics_of rows) = Finite (exact_investment rows)"
    unfolding totalInvestment_analytics_of exact_investment_def
    using rows bi by (intro products_whole) (simp_all add: whole_row_def)
  show tr: "totalRevenue (analytics_of rows) = Finite (exact_revenue rows)"
    unfolding totalRevenue_analytics_of exact_revenue_def
    using rows br by (intro products_whole) (simp_all add: whole_row_def)
  have "\<bar>exact_investment rows\<bar> < 2 ^ 52"
    unfolding exact_investment_def using abs_sum_list_le bi by (rule le_less_trans)
  moreover have "\<bar>exact_revenue rows\<bar> < 2 ^ 52"
    unfolding exact_revenue_def using abs_sum_list_le br by (rule le_less_trans)
  ultimately have "\<bar>exact_revenue rows - exact_investment rows\<bar> < 2 ^ 53" by simp
  moreover have "exact_investment rows \<in> \<int>" "exact_revenue rows \<in> \<int>"
    unfolding exact_investment_def exact_revenue_def using rows
    by (auto intro!: sum_list_Ints Ints_mult whole_column_Ints simp: whole_row_def)
  ultimately show "totalProfit (analytics_of rows)
      = Finite (exact_revenue rows - exact_investment rows)"
    by (simp add: totalProfit_analytics_of ti tr num_sub_def to_double_Ints)
qed












text \<open>Values of the double arithmetic at the example rows.\<close>

lemma double_margin_example:
  "num_div (Finite 9) (Finite 16) = Finite (9 / 16)"
  "num_mul (Finite (9 / 16)) (Finite 100) = Finite (225 / 4)"
  by (simp, rule to_double_posI, simp, code_simp, simp)+

lemma double_margin_example_rounded: "to_double (225 / 4) = Finite (225 / 4)"
  by (rule to_double_posI, simp, code_simp, simp)

lemma toFixed2_example: "toFixed2 (225 / 4) = 225 / 4"
  by code_simp

lemma double_margin_item:
  "num_div (Finite 23) (Finite 160) = Finite (2589569785738035 / 18014398509481984)"
  "num_mul (Finite (2589569785738035 / 18014398509481984)) (Finite 100)
     = Finite (8092405580431359 / 562949953421312)"
  by (simp, rule to_double_posI, simp, code_simp, simp)+

lemma double_margin_item_rounded:
  "to_double (1437 / 100) = Finite (8089590830664253 / 562949953421312)"
  "to_double (1438 / 100) = Finite (8095220330198467 / 562949953421312)"
  by (rule to_double_posI, simp, code_simp, simp)+

lemma toFixed2_margin_item:
  "toFixed2 (8092405580431359 / 562949953421312) = 1437 / 100"
  "toFixed2 (100 * 23 / 160) = 1438 / 100"
  by code_simp+

lemma double_large_item:
  "num_div (Finite 186211035218806) (Finite 1648614742973050)
     = Finite (1017363155822995 / 9007199254740992)"
  "num_mul (Finite (1017363155822995 / 9007199254740992)) (Finite 100)
     = Finite (6358519723893719 / 562949953421312)"
  by (simp, rule to_double_posI, simp, code_simp, simp)+

lemma double_large_item_rounded:
  "to_double (1129 / 100) = Finite (1588926243531653 / 140737488355328)"
  "to_double (1130 / 100) = Finite (3180667236830413 / 281474976710656)"
  by (rule to_double_posI, simp, code_simp, simp)+

lemma toFixed2_large_item:
  "toFixed2 (6358519723893719 / 562949953421312) = 1129 / 100"
  "toFixed2 (100 * 186211035218806 / 1648614742973050) = 1130 / 100"
  by code_simp+

lemma totals_single:
  assumes "small_whole_rows [i]"
  shows "totalInvestment (analytics_of [i])
           = Finite (exact_value (buying_price i) * exact_value (quantity_value i))"
    and "totalProfit (analytics_of [i])
           = Finite (exact_value (selling_price i) * exact_value (quantity_value i)
                     - exact_value (buying_price i) * exact_value (quantity_value i))"
  using totals_exact [OF assms] by (simp_all add: exact_investment_def exact_revenue_def)

lemma margin_of_single:
  assumes "small_whole_rows [i]"
    and "0 < exact_value (buying_price i) * exact_value (quantity_value i)"
  shows "profitMargin (analytics_of [i]) =
     parseFloat_toFixed2
       (num_mul (num_div (Finite (exact_value (selling_price i) * exact_value (quantity_value i)
                     - exact_value (buying_price i) * exact_value (quantity_value i)))
                   (Finite (exact_value (buying_price i) * exact_value (quantity_value i))))
          (Finite 100))"
  using assms(2)
  by (simp only: profitMargin_analytics_of totals_single [OF assms(1)] num_gt0.simps if_True)

lemma profitMargin_margin_item:
  "profitMargin (analytics_of [margin_item]) = Finite (8089590830664253 / 562949953421312)"
proof -
  have "small_whole_rows [margin_item]"
    by (simp add: small_whole_rows_def whole_row_def whole_column_def exact_value_def
        margin_item_def maize_def)
  then have "profitMargin (analytics_of [margin_item]) =
     parseFloat_toFixed2 (num_mul (num_div (Finite 23) (Finite 160)) (Finite 100))"
    by (subst margin_of_single) (simp_all add: exact_value_def margin_item_def maize_def)
  also have "\<dots> = parseFloat_toFixed2 (Finite (8092405580431359 / 562949953421312))"
    by (simp only: double_margin_item)
  also have "\<dots> = to_double (1437 / 100)"
    by (simp add: toFixed2_margin_item)
  finally show ?thesis by (simp only: double_margin_item_rounded)
qed

lemma profitMargin_large_item:
  "profitMargin (analytics_of [large_item]) = Finite (1588926243531653 / 140737488355328)"
proof -
  have "small_whole_rows [large_item]"
    by (simp add: small_whole_rows_def whole_row_def whole_column_def exact_value_def
        large_item_def maize_def)
  then have "profitMargin (analytics_of [large_item]) =
     parseFloat_toFixed2
       (num_mul (num_div (Finite 186211035218806) (Finite 1648614742973050)) (Finite 100))"
    by (subst margin_of_single) (simp_all add: exact_value_def large_item_def maize_def)
  also have "\<dots> = parseFloat_toFixed2 (Finite (6358519723893719 / 562949953421312))"
    by (simp only: double_large_item)
  also have "\<dots> = to_double (1129 / 100)"
    by (simp add: toFixed2_large_item)
  finally show ?thesis by (simp only: double_large_item_rounded)
qed

text \<open>
  C8, as stated, fails: for one item bought at 160 and sold at 183 the margin
  \<open>100 \<times> 23 / 160\<close> is 14.375, which rounds to 14.38, and the reply has 14.37: the
  double quotient times 100 is 14.374999999999998. For one item bought at
  1648614742973050 and sold at 1834825778191856 the reply has 11.29, more than 0.005
  away from \<open>100 \<times> totalProfit / totalInvestment\<close>.
\<close>

theorem computeAnalytics_profitMargin_inexact:
  "computeAnalytics ''u1'' (demo_store\<lparr>items := [margin_item]\<rparr>) = Ok (analytics_of [margin_item])
   \<and> totalInvestment (analytics_of [margin_item]) = Finite 160
   \<and> totalProfit (analytics_of [margin_item]) = Finite 23
   \<and> profitMargin (analytics_of [margin_item]) = to_double (1437 / 100)
   \<and> toFixed2 (100 * 23 / 160) = 1438 / 100
   \<and> to_double (1437 / 100) \<noteq> to_double (1438 / 100)
   \<and> computeAnalytics ''u1'' (demo_store\<lparr>items := [large_item]\<rparr>) = Ok (analytics_of [large_item])
   \<and> totalInvestment (analytics_of [large_item]) = Finite 1648614742973050
   \<and> totalProfit (analytics_of [large_item]) = Finite 186211035218806
   \<and> profitMargin (analytics_of [large_item]) = to_double (1129 / 100)
   \<and> 1 / 200 < \<bar>1129 / 100 - 100 * 186211035218806 / (1648614742973050::rat)\<bar>"
proof -
  have "connected (demo_store\<lparr>items := [margin_item]\<rparr>)"
    "connected (demo_store\<lparr>items := [large_item]\<rparr>)"
    by (simp_all add: demo_store_def)
  moreover have "items_of_user ''u1'' (demo_store\<lparr>items := [margin_item]\<rparr>) = [margin_item]"
    "items_of_user ''u1'' (demo_store\<lparr>items := [large_item]\<rparr>) = [large_item]"
    by (simp_all add: items_of_user_def margin_item_def large_item_def maize_def)
  ultimately have run:
    "computeAnalytics ''u1'' (demo_store\<lparr>items := [margin_item]\<rparr>) = Ok (analytics_of [margin_item])"
    "computeAnalytics ''u1'' (demo_store\<lparr>items := [large_item]\<rparr>) = Ok (analytics_of [large_item])"
    by (simp_all add: computeAnalytics_connected)
  have "small_whole_rows [margin_item]"
    by (simp add: small_whole_rows_def whole_row_def whole_column_def exact_value_def
        margin_item_def maize_def)
  from totals_single [OF this]
  have m: "totalInvestment (analytics_of [margin_item]) = Finite 160"
    "totalProfit (analytics_of [margin_item]) = Finite 23"
    by (simp_all add: exact_value_def margin_item_def maize_def)
  have "small_whole_rows [large_item]"
    by (simp add: small_whole_rows_def whole_row_def whole_column_def exact_value_def
        large_item_def maize_def)
  from totals_single [OF this]
  have l: "totalInvestment (analytics_of [large_item]) = Finite 1648614742973050"
    "totalProfit (analytics_of [large_item]) = Finite 186211035218806"
    by (simp_all add: exact_value_def large_item_def maize_def)
  have "to_double (1437 / 100) \<noteq> to_double (1438 / 100)"
    by (simp only: double_margin_item_rounded) simp
  moreover have "1 / 200 < \<bar>1129 / 100 - 100 * 186211035218806 / (1648614742973050::rat)\<bar>"
    by simp
  moreover have "profitMargin (analytics_of [margin_item]) = to_double (1437 / 100)"
    by (simp only: profitMargin_margin_item double_margin_item_rounded)
  moreover have "profitMargin (analytics_of [large_item]) = to_double (1129 / 100)"
    by (simp only: profitMargin_large_item double_large_item_rounded)
  ultimately show ?thesis
    using run m l toFixed2_margin_item(2) by (simp only: simp_thms)
qed

text \<open>
  C8, amended: \<open>profitMargin\<close> is 0 when \<open>totalInvestment\<close> is not greater than 0.
  Otherwise it is \<open>totalProfit / totalInvestment\<close> times 100 in double arithmetic, the
  quotient and the product each rounded to a double, printed with two decimals and read
  back as a double. When the totals are finite and the exact quotient is 0 or between
  \<open>2\<^sup>-\<^sup>1\<^sup>0\<^sup>2\<^sup>2\<close> and \<open>10\<^sup>1\<^sup>8\<close> in magnitude, the product \<open>m\<close> is within
  the relative error \<open>2\<^sup>-\<^sup>5\<^sup>1\<close> of \<open>100 \<times> totalProfit / totalInvestment\<close>, and
  \<open>profitMargin\<close> is the double nearest to a decimal \<open>n / 100\<close> within 0.005 of \<open>m\<close>.
\<close>

theorem computeAnalytics_profitMargin:
  assumes "connected s"
  shows "\<exists>a. computeAnalytics uid s = Ok a
    \<and> (\<not> num_gt0 (totalInvestment a) \<longrightarrow> profitMargin a = Finite 0)
    \<and> (num_gt0 (totalInvestment a) \<longrightarrow>
          profitMargin a
            = parseFloat_toFixed2
                (num_mul (num_div (totalProfit a) (totalInvestment a)) (Finite 100)))
    \<and> (\<forall>p i. totalProfit a = Finite p \<and> totalInvestment a = Finite i \<and> 0 < i
             \<and> (p = 0 \<or> 1 / 2 ^ 1022 \<le> \<bar>p / i\<bar>) \<and> \<bar>p / i\<bar> \<le> 10 ^ 18
         \<longrightarrow> (\<exists>m n. num_mul (num_div (Finite p) (Finite i)) (Finite 100) = Finite m
                \<and> \<bar>m - 100 * p / i\<bar> \<le> \<bar>100 * p / i\<bar> / 2 ^ 51
                \<and> profitMargin a = to_double (of_int n / 100)
                \<and> \<bar>of_int n / 100 - m\<bar> \<le> 1 / 200))"
proof (rule exI, intro conjI impI allI; (elim conjE)?)
  let ?a = "analytics_of (items_of_user uid s)"
  show "computeAnalytics uid s = Ok ?a"
    using assms by (rule computeAnalytics_connected)
  show "profitMargin ?a = Finite 0" if "\<not> num_gt0 (totalInvestment ?a)"
    using that by (simp only: profitMargin_analytics_of if_False parseFloat_toFixed2_zero)
  show pos: "profitMargin ?a
      = parseFloat_toFixed2 (num_mul (num_div (totalProfit ?a) (totalInvestment ?a)) (Finite 100))"
    if "num_gt0 (totalInvestment ?a)"
    using that by (simp only: profitMargin_analytics_of if_True)
  fix p i
  assume hp: "totalProfit ?a = Finite p" and hi: "totalInvestment ?a = Finite i"
    and i: "0 < i" and lo: "p = 0 \<or> 1 / 2 ^ 1022 \<le> \<bar>p / i\<bar>"
    and hi': "\<bar>p / i\<bar> \<le> 10 ^ 18"
  from i have "i \<noteq> 0" by simp
  then have "\<exists>m n. num_mul (num_div (Finite p) (Finite i)) (Finite 100) = Finite m
           \<and> \<bar>m - 100 * p / i\<bar> \<le> \<bar>100 * p / i\<bar> / 2 ^ 51
           \<and> parseFloat_toFixed2 (Finite m) = to_double (of_int n / 100)
           \<and> \<bar>of_int n / 100 - m\<bar> \<le> 1 / 200"
    using lo hi' by (rule margin_rounded)
  then obtain m n where mn: "num_mul (num_div (Finite p) (Finite i)) (Finite 100) = Finite m"
    "\<bar>m - 100 * p / i\<bar> \<le> \<bar>100 * p / i\<bar> / 2 ^ 51"
    "parseFloat_toFixed2 (Finite m) = to_double (of_int n / 100)"
    "\<bar>of_int n / 100 - m\<bar> \<le> 1 / 200"
    by (elim exE conjE)
  have "num_gt0 (totalInvestment ?a)" using i by (simp only: hi num_gt0.simps)
  then have "profitMargin ?a
      = parseFloat_toFixed2 (num_mul (num_div (totalProfit ?a) (totalInvestment ?a)) (Finite 100))"
    by (rule pos)
  also have "\<dots> = parseFloat_toFixed2 (Finite m)" by (simp only: hp hi mn(1))
  finally have "profitMargin ?a = to_double (of_int n / 100)" by (simp only: mn(3))
  with mn(1,2)
  have "num_mul (num_div (Finite p) (Finite i)) (Finite 100) = Finite m
                \<and> \<bar>m - 100 * p / i\<bar> \<le> \<bar>100 * p / i\<bar> / 2 ^ 51
                \<and> profitMargin ?a = to_double (of_int n / 100)
                \<and> \<bar>of_int n / 100 - m\<bar> \<le> 1 / 200"
    using mn(4) by (intro conjI)
  then show "\<exists>m n. num_mul (num_div (Finite p) (Finite i)) (Finite 100) = Finite m
                \<and> \<bar>m - 100 * p / i\<bar> \<le> \<bar>100 * p / i\<bar> / 2 ^ 51
                \<and> profitMargin ?a = to_double (of_int n / 100)
                \<and> \<bar>of_int n / 100 - m\<bar> \<le> 1 / 200"
    by (intro exI)
qed

theorem computeAnalytics_profitMargin_witness:
  "connected demo_store
   \<and> (\<exists>a. computeAnalytics ''u1'' demo_store = Ok a
          \<and> num_gt0 (totalInvestment a) \<and> totalInvestment a = Finite 16
          \<and> totalProfit a = Finite 9 \<and> profitMargin a = Finite (225 / 4))
   \<and> (\<exists>a. computeAnalytics ''nobody'' demo_store = Ok a
          \<and> \<not> num_gt0 (totalInvestment a) \<and> profitMargin a = Finite 0)"
proof -
  have c: "connected demo_store" by (simp add: demo_store_def)
  have small: "small_whole_rows [maize, beans]"
    by (simp add: small_whole_rows_def whole_row_def whole_column_def exact_value_def
        maize_def beans_def)
  have t: "totalInvestment (analytics_of [maize, beans]) = Finite 16"
    "totalProfit (analytics_of [maize, beans]) = Finite 9"
    using totals_exact [OF small]
    by (simp_all add: exact_investment_def exact_revenue_def exact_value_def maize_def beans_def)
  from computeAnalytics_profitMargin [OF c, of "''u1''"] obtain a where
    a: "computeAnalytics ''u1'' demo_store = Ok a"
    and pos: "num_gt0 (totalInvestment a) \<longrightarrow>
          profitMargin a
            = parseFloat_toFixed2
                (num_mul (num_div (totalProfit a) (totalInvestment a)) (Finite 100))"
    by blast
  have "a = analytics_of [maize, beans]"
    using a computeAnalytics_connected [OF c, of "''u1''"] by (simp add: items_of_user_demo)
  then have ta: "totalInvestment a = Finite 16" "totalProfit a = Finite 9"
    using t by simp_all
  then have g: "num_gt0 (totalInvestment a)" by simp
  with pos have "profitMargin a
      = parseFloat_toFixed2 (num_mul (num_div (Finite 9) (Finite 16)) (Finite 100))"
    by (simp only: ta)
  also have "\<dots> = parseFloat_toFixed2 (Finite (225 / 4))"
    by (simp only: double_margin_example)
  also have "\<dots> = Finite (225 / 4)"
    by (simp add: toFixed2_example double_margin_example_rounded)
  finally have first: "\<exists>a. computeAnalytics ''u1'' demo_store = Ok a
          \<and> num_gt0 (totalInvestment a) \<and> totalInvestment a = Finite 16
          \<and> totalProfit a = Finite 9 \<and> profitMargin a = Finite (225 / 4)"
    using a g ta by blast
  from computeAnalytics_profitMargin [OF c, of "''nobody''"] obtain b where
    b: "computeAnalytics ''nobody'' demo_store = Ok b"
    and zero: "\<not> num_gt0 (totalInvestment b) \<longrightarrow> profitMargin b = Finite 0"
    by blast
  have "items_of_user ''nobody'' demo_store = []"
    by (simp add: items_of_user_def demo_store_def maize_def beans_def eggs_def)
  then have "b = analytics_of []"
    using b computeAnalytics_connected [OF c, of "''nobody''"] by simp
  then have "\<not> num_gt0 (totalInvestment b)"
    by (simp add: totalInvestment_analytics_of double_sum_def)
  with zero b have "\<exists>a. computeAnalytics ''nobody'' demo_store = Ok a
          \<and> \<not> num_gt0 (totalInvestment a) \<and> profitMargin a = Finite 0"
    by blast
  with c first show ?thesis by blast
qed





















subsection \<open>Items\<close>

lemma mset_order_by_desc: "mset (order_by_desc key rows) = mset rows"
  by (simp add: order_by_desc_def mset_sort_by)

lemma newest_first_order_by_desc: "newest_first key (order_by_desc key rows)"
  unfolding newest_first_def order_by_desc_def by (rule sorted_sort_by) simp

lemma listItems_connected:
  "connected s \<Longrightarrow> listItems uid s = Ok (order_by_desc created_at (items_of_user uid s))"
  by (simp add: listItems_def select_items_newest_first_def items_of_user_def sql_eq_Some)

lemma server_listItems_connected:
  "sv_connected t \<Longrightarrow>
   server_listItems err uid t = Ok (filter (\<lambda>r. sv_item_user_id r = Some uid) (sv_items t))"
  by (simp add: server_listItems_def sql_eq_Some)

text \<open>
  C9, as stated, fails on the smaller server: two items added at times 1 and 2 are listed
  in that order, the older one first.
\<close>

theorem server_listItems_oldest_first:
  "server_listItems ''down'' ''u1''
     (snd (server_addItem server_demo_schema ''down'' 2 server_body_b
        (snd (server_addItem server_demo_schema ''down'' 1 server_body_a server_empty))))
   = Ok [server_new_item 1 server_body_a, server_new_item 2 server_body_b]
   \<and> \<not> newest_first sv_item_created_at
         [server_new_item 1 server_body_a, server_new_item 2 server_body_b]"
  by (simp add: server_listItems_def server_addItem_def server_demo_schema_def
      server_empty_def server_new_item_def server_body_a_def server_body_b_def
      sql_eq_def newest_first_def)

text \<open>
  C9, amended: in the full backend \<open>listItems\<close> returns exactly the items of the user,
  each once, ordered by creation time descending; the item listing of the smaller server
  returns exactly the items of the user in the order the store holds them, with no
  ordering by creation time.
\<close>

theorem listItems_order:
  "(connected s \<longrightarrow>
      (\<exists>rows. listItems uid s = Ok rows
         \<and> mset rows = mset (items_of_user uid s)
         \<and> newest_first created_at rows))
   \<and> (sv_connected t \<longrightarrow>
      server_listItems err uid t
        = Ok (filter (\<lambda>r. sv_item_user_id r = Some uid) (sv_items t)))"
  by (simp add: listItems_connected server_listItems_connected
      mset_order_by_desc newest_first_order_by_desc)

theorem listItems_order_witness:
  "connected demo_store \<and> items_of_user ''u1'' demo_store = [maize, beans]
   \<and> listItems ''u1'' demo_store = Ok [beans, maize]
   \<and> created_at beans = 20 \<and> created_at maize = 10
   \<and> sv_connected server_empty \<and> server_listItems ''down'' ''u1'' server_empty = Ok []"
proof -
  have c: "connected demo_store" by (simp add: demo_store_def)
  have d: "sv_connected server_empty" by (simp add: server_empty_def)
  from listItems_order [of demo_store "''u1''" server_empty "''down''"] c d
  obtain rows where rows: "listItems ''u1'' demo_store = Ok rows"
    and e: "server_listItems ''down'' ''u1'' server_empty
        = Ok (filter (\<lambda>r. sv_item_user_id r = Some ''u1'') (sv_items server_empty))"
    by blast
  have "listItems ''u1'' demo_store = Ok [beans, maize]"
    by (simp add: listItems_connected [OF c] items_of_user_demo order_by_desc_def
        maize_def beans_def)
  moreover have "created_at beans = 20 \<and> created_at maize = 10"
    by (simp add: maize_def beans_def)
  moreover have "server_listItems ''down'' ''u1'' server_empty = Ok []"
    using e by (simp add: server_empty_def)
  ultimately show ?thesis using c d items_of_user_demo by simp
qed

lemma addItem_accepted:
  assumes "connected s" "item_ok sch (new_item nid now b)"
  shows "addItem sch nid now b s =
         (OkMsg (Some (new_item nid now b)) ''Item added successfully'',
          s\<lparr>items := items s @ [new_item nid now b]\<rparr>)"
  using assms by (simp add: addItem_def insert_item_def)

lemma mset_single_list: "mset xs = {#x#} \<Longrightarrow> xs = [x]"
  by (cases xs) auto

text \<open>
  C3: when the store accepts the item, \<open>addItem\<close> followed by \<open>listItems\<close> for the
  same user lists the user's earlier items and the new row, which carries every field of
  the request unchanged; what the store adds is the identifier and the creation time (and
  an empty update time). With a fresh identifier the listing holds exactly one row of that
  identifier.
\<close>

theorem addItem_then_listItems:
  assumes "connected s" and "item_ok sch (new_item nid now b)" and "userId b = Some uid"
  shows "\<exists>r s' rows. addItem sch nid now b s = (OkMsg (Some r) ''Item added successfully'', s')
    \<and> listItems uid s' = Ok rows
    \<and> mset rows = add_mset r (mset (items_of_user uid s))
    \<and> r \<in> set rows
    \<and> item_fields.truncate r = item_fields.truncate b
    \<and> user_id r = Some uid
    \<and> item_id r = nid \<and> created_at r = now \<and> updated_at r = None
    \<and> (nid \<notin> item_id ` set (items s) \<longrightarrow> filter (\<lambda>x. item_id x = nid) rows = [r])"
proof -
  let ?r = "new_item nid now b"
  let ?s' = "s\<lparr>items := items s @ [?r]\<rparr>"
  let ?rows = "order_by_desc created_at (items_of_user uid ?s')"
  have add: "addItem sch nid now b s = (OkMsg (Some ?r) ''Item added successfully'', ?s')"
    using assms(1,2) by (rule addItem_accepted)
  have "connected ?s'" using assms(1) by simp
  then have list: "listItems uid ?s' = Ok ?rows" by (rule listItems_connected)
  have own: "items_of_user uid ?s' = items_of_user uid s @ [?r]"
    using assms(3) by (simp add: items_of_user_def new_item_def)
  have perm: "mset ?rows = add_mset ?r (mset (items_of_user uid s))"
    by (simp add: mset_order_by_desc own)
  have mem: "?r \<in> set ?rows"
    using perm by (metis union_single_eq_member set_mset_mset)
  have fields: "item_fields.truncate ?r = item_fields.truncate b"
    by (simp add: new_item_def item_fields.defs)
  have cols: "user_id ?r = Some uid" "item_id ?r = nid" "created_at ?r = now"
    "updated_at ?r = None"
    using assms(3) by (simp_all add: new_item_def)
  have once: "filter (\<lambda>x. item_id x = nid) ?rows = [?r]"
    if fresh: "nid \<notin> item_id ` set (items s)"
  proof -
    have "filter (\<lambda>x. item_id x = nid) (items_of_user uid s) = []"
      using fresh by (auto simp: items_of_user_def filter_empty_conv)
    then have none: "filter_mset (\<lambda>x. item_id x = nid) (mset (items_of_user uid s)) = {#}"
      by (simp only: flip: mset_filter) simp
    have "mset (filter (\<lambda>x. item_id x = nid) ?rows)
            = filter_mset (\<lambda>x. item_id x = nid) (mset ?rows)"
      by (rule mset_filter)
    also have "\<dots> = filter_mset (\<lambda>x. item_id x = nid) (add_mset ?r (mset (items_of_user uid s)))"
      by (simp only: perm)
    also have "\<dots> = {#?r#}"
      using none cols(2) by simp
    finally show ?thesis by (rule mset_single_list)
  qed
  from add list perm mem fields cols once show ?thesis by blast
qed

theorem addItem_then_listItems_witness:
  "connected demo_store \<and> item_ok demo_schema (new_item 8 40 tea_body)
   \<and> userId tea_body = Some ''u1'' \<and> 8 \<notin> item_id ` set (items demo_store)
   \<and> (\<exists>s'. addItem demo_schema 8 40 tea_body demo_store
                = (OkMsg (Some (new_item 8 40 tea_body)) ''Item added successfully'', s')
          \<and> listItems ''u1'' s' = Ok [new_item 8 40 tea_body, beans, maize])
   \<and> item_fields.truncate (new_item 8 40 tea_body) = item_fields.truncate tea_body"
proof -
  have c: "connected demo_store" by (simp add: demo_store_def)
  have ok: "item_ok demo_schema (new_item 8 40 tea_body)"
    by (simp add: demo_schema_def new_item_def tea_body_def)
  have u: "userId tea_body = Some ''u1''" by (simp add: tea_body_def)
  have fresh: "8 \<notin> item_id ` set (items demo_store)"
    by (simp add: demo_store_def maize_def beans_def eggs_def)
  from addItem_then_listItems [OF c ok u] obtain r s' rows where
    add: "addItem demo_schema 8 40 tea_body demo_store
            = (OkMsg (Some r) ''Item added successfully'', s')"
    and list: "listItems ''u1'' s' = Ok rows"
    and fields: "item_fields.truncate r = item_fields.truncate tea_body"
    by blast
  have r: "r = new_item 8 40 tea_body" and s': "s' = demo_store\<lparr>items := items demo_store @ [new_item 8 40 tea_body]\<rparr>"
    using add by (auto simp: addItem_accepted [OF c ok])
  have "connected s'" using c by (simp add: s')
  then have "listItems ''u1'' s' = Ok [new_item 8 40 tea_body, beans, maize]"
    by (simp add: listItems_connected s' items_of_user_def demo_store_def order_by_desc_def
        maize_def beans_def eggs_def new_item_def tea_body_def)
  with c ok u fresh add fields r show ?thesis by simp
qed

lemma item_matches_Some:
  "item_matches iid (Some uid) r \<longleftrightarrow> item_id r = iid \<and> user_id r = Some uid"
  by (simp add: item_matches_def sql_eq_Some)

lemma map_if_none: "filter P xs = [] \<Longrightarrow> map (\<lambda>x. if P x then f x else x) xs = xs"
  by (induction xs) (auto split: if_splits)

text \<open>What the update writes into a row, and what it keeps.\<close>

lemma set_item_columns:
  "item_fields.truncate (set_item now b r) = item_fields.truncate b
   \<and> updated_at (set_item now b r) = Some now
   \<and> item_id (set_item now b r) = item_id r
   \<and> user_id (set_item now b r) = user_id r
   \<and> created_at (set_item now b r) = created_at r"
  by (simp add: set_item_def item_fields.defs)

lemma updateItem_not_found:
  assumes "connected s" and "filter (item_matches iid (userId b)) (items s) = []"
  shows "updateItem sch now iid b s = (Err 404 ''Item not found'', s)"
  using assms by (simp add: updateItem_def update_item_def map_if_none)

lemma updateItem_found:
  assumes "connected s" and "filter (item_matches iid (userId b)) (items s) = x # xs"
    and "list_all (item_ok sch) (map (set_item now b) (x # xs))"
  shows "updateItem sch now iid b s =
     (OkMsg (set_item now b x) ''Item updated successfully'',
      s\<lparr>items := map (\<lambda>r. if item_matches iid (userId b) r then set_item now b r else r)
                      (items s)\<rparr>)"
  using assms by (simp add: updateItem_def update_item_def)

text \<open>
  C6: \<open>updateItem\<close> changes only rows that match both the item identifier and the user,
  writes the request's fields and the update time into them and keeps their identifier,
  user and creation time; when no row matches (also when the identifier belongs to another
  user) the reply is the 404 \<open>Item not found\<close>, not the 500 of a rejected statement,
  and the store is unchanged.
\<close>

theorem updateItem_owner_only:
  assumes "connected s" and "userId b = Some uid"
  shows "((\<forall>x\<in>set (items s). \<not> (item_id x = iid \<and> user_id x = Some uid))
            \<longrightarrow> updateItem sch now iid b s = (Err 404 ''Item not found'', s))
    \<and> ((\<exists>x\<in>set (items s). item_id x = iid \<and> user_id x = Some uid)
          \<and> (\<forall>x\<in>set (items s). item_id x = iid \<and> user_id x = Some uid
                 \<longrightarrow> item_ok sch (set_item now b x))
            \<longrightarrow> (\<exists>r s'. updateItem sch now iid b s = (OkMsg r ''Item updated successfully'', s')))
    \<and> (\<forall>r m s'. updateItem sch now iid b s = (OkMsg r m, s') \<longrightarrow>
          items s' = map (\<lambda>x. if item_id x = iid \<and> user_id x = Some uid
                               then set_item now b x else x) (items s)
          \<and> user_settings s' = user_settings s \<and> goals s' = goals s
          \<and> (\<exists>x\<in>set (items s). item_id x = iid \<and> user_id x = Some uid \<and> r = set_item now b x)
          \<and> updated_at r = Some now
          \<and> item_fields.truncate r = item_fields.truncate b)
    \<and> (\<forall>x. item_fields.truncate (set_item now b x) = item_fields.truncate b
           \<and> updated_at (set_item now b x) = Some now
           \<and> item_id (set_item now b x) = item_id x
           \<and> user_id (set_item now b x) = user_id x
           \<and> created_at (set_item now b x) = created_at x)"
proof (intro conjI impI allI)
  let ?hit = "filter (item_matches iid (userId b)) (items s)"
  have match: "item_matches iid (userId b) = (\<lambda>x. item_id x = iid \<and> user_id x = Some uid)"
    using assms(2) by (auto simp: item_matches_Some)
  show "updateItem sch now iid b s = (Err 404 ''Item not found'', s)"
    if "\<forall>x\<in>set (items s). \<not> (item_id x = iid \<and> user_id x = Some uid)"
  proof -
    have "?hit = []" using that by (simp add: match filter_empty_conv)
    with assms(1) show ?thesis by (rule updateItem_not_found)
  qed
  show "\<exists>r s'. updateItem sch now iid b s = (OkMsg r ''Item updated successfully'', s')"
    if some: "(\<exists>x\<in>set (items s). item_id x = iid \<and> user_id x = Some uid)
          \<and> (\<forall>x\<in>set (items s). item_id x = iid \<and> user_id x = Some uid
                 \<longrightarrow> item_ok sch (set_item now b x))"
  proof -
    from some have "?hit \<noteq> []" by (simp add: match filter_empty_conv)
    then obtain x xs where hit: "?hit = x # xs" by (cases ?hit) auto
    have "\<forall>y\<in>set ?hit. item_ok sch (set_item now b y)"
      using some by (simp add: match)
    then have "list_all (item_ok sch) (map (set_item now b) (x # xs))"
      unfolding hit by (simp add: list_all_iff)
    with assms(1) hit show ?thesis by (blast dest: updateItem_found)
  qed
  fix r m s'
  assume ok: "updateItem sch now iid b s = (OkMsg r m, s')"
  then obtain x xs where hit: "?hit = x # xs" and r: "r = set_item now b x"
    and s': "s' = s\<lparr>items := map (\<lambda>r. if item_matches iid (userId b) r
                                          then set_item now b r else r) (items s)\<rparr>"
    by (auto simp: updateItem_def update_item_def Let_def split: if_splits list.splits)
  show "items s' = map (\<lambda>x. if item_id x = iid \<and> user_id x = Some uid
                               then set_item now b x else x) (items s)"
    by (simp add: s' match)
  show "user_settings s' = user_settings s" "goals s' = goals s"
    by (simp_all add: s')
  have "x \<in> set ?hit" by (simp add: hit)
  then have "x \<in> set (items s) \<and> item_id x = iid \<and> user_id x = Some uid"
    by (simp add: match)
  with r show "\<exists>x\<in>set (items s). item_id x = iid \<and> user_id x = Some uid \<and> r = set_item now b x"
    by blast
  show "updated_at r = Some now" "item_fields.truncate r = item_fields.truncate b"
    by (simp_all add: r set_item_columns)
next
  fix x
  show "item_fields.truncate (set_item now b x) = item_fields.truncate b"
    "updated_at (set_item now b x) = Some now"
    "item_id (set_item now b x) = item_id x"
    "user_id (set_item now b x) = user_id x"
    "created_at (set_item now b x) = created_at x"
    by (simp_all add: set_item_columns)
qed

theorem updateItem_owner_only_witness:
  "connected demo_store \<and> userId tea_body = Some ''u1''
   \<and> user_id eggs = Some ''u2'' \<and> item_id eggs = 3
   \<and> updateItem demo_schema 50 3 tea_body demo_store = (Err 404 ''Item not found'', demo_store)
   \<and> updateItem demo_schema 50 9 tea_body demo_store = (Err 404 ''Item not found'', demo_store)
   \<and> updateItem demo_schema 50 2 tea_body demo_store
       = (OkMsg (set_item 50 tea_body beans) ''Item updated successfully'',
          demo_store\<lparr>items := [maize, set_item 50 tea_body beans, eggs]\<rparr>)
   \<and> updated_at (set_item 50 tea_body beans) = Some 50
   \<and> name (set_item 50 tea_body beans) = Some ''tea''"
proof -
  have c: "connected demo_store" by (simp add: demo_store_def)
  have u: "userId tea_body = Some ''u1''" by (simp add: tea_body_def)
  note inst = updateItem_owner_only [OF c u, where sch = demo_schema and now = 50]
  have n3: "updateItem demo_schema 50 3 tea_body demo_store = (Err 404 ''Item not found'', demo_store)"
    using inst [where iid = 3] by (simp add: demo_store_def maize_def beans_def eggs_def)
  have n9: "updateItem demo_schema 50 9 tea_body demo_store = (Err 404 ''Item not found'', demo_store)"
    using inst [where iid = 9] by (simp add: demo_store_def maize_def beans_def eggs_def)
  have hit: "filter (item_matches 2 (userId tea_body)) (items demo_store) = [beans]"
    by (simp add: u item_matches_Some demo_store_def maize_def beans_def eggs_def)
  have ok: "list_all (item_ok demo_schema) (map (set_item 50 tea_body) [beans])"
    by (simp add: demo_schema_def set_item_def tea_body_def)
  have y2: "updateItem demo_schema 50 2 tea_body demo_store
       = (OkMsg (set_item 50 tea_body beans) ''Item updated successfully'',
          demo_store\<lparr>items := [maize, set_item 50 tea_body beans, eggs]\<rparr>)"
    using updateItem_found [OF c hit ok]
    by (simp add: u item_matches_Some demo_store_def maize_def beans_def eggs_def)
  have "updated_at (set_item 50 tea_body beans) = Some 50
        \<and> name (set_item 50 tea_body beans) = Some ''tea''"
    using inst [where iid = 2] y2 by (simp add: set_item_def tea_body_def)
  with c u n3 n9 y2 show ?thesis by (simp add: eggs_def)
qed

lemma deleteItem_connected:
  assumes "connected s"
  shows "deleteItem iid uid s =
     (if filter (item_matches iid (Some uid)) (items s) = []
      then (Err 404 ''Item not found'', s)
      else (OkMsg () ''Item deleted successfully'',
            s\<lparr>items := filter (\<lambda>r. \<not> item_matches iid (Some uid) r) (items s)\<rparr>))"
proof (cases "filter (item_matches iid (Some uid)) (items s) = []")
  case True
  then have "filter (\<lambda>r. \<not> item_matches iid (Some uid) r) (items s) = items s"
    by (simp add: filter_empty_conv)
  with True assms show ?thesis by (simp add: deleteItem_def delete_item_def)
next
  case False
  with assms show ?thesis by (simp add: deleteItem_def delete_item_def)
qed

text \<open>
  C7: \<open>deleteItem\<close> removes exactly the rows that match both identifiers and replies
  with success when there was one; when none matches it replies with the 404
  \<open>Item not found\<close> and leaves the store unchanged, so a second delete of the same
  identifier is a 404 on an unchanged store.
\<close>

theorem deleteItem_owner_only:
  assumes "connected s"
  shows "(if \<exists>x\<in>set (items s). item_id x = iid \<and> user_id x = Some uid
          then deleteItem iid uid s =
                 (OkMsg () ''Item deleted successfully'',
                  s\<lparr>items := filter (\<lambda>x. \<not> (item_id x = iid \<and> user_id x = Some uid)) (items s)\<rparr>)
          else deleteItem iid uid s = (Err 404 ''Item not found'', s))
    \<and> deleteItem iid uid (snd (deleteItem iid uid s))
        = (Err 404 ''Item not found'', snd (deleteItem iid uid s))"
proof
  have hit: "filter (item_matches iid (Some uid)) (items s) = [] \<longleftrightarrow>
             \<not> (\<exists>x\<in>set (items s). item_id x = iid \<and> user_id x = Some uid)"
    by (simp add: filter_empty_conv item_matches_Some)
  show "if \<exists>x\<in>set (items s). item_id x = iid \<and> user_id x = Some uid
          then deleteItem iid uid s =
                 (OkMsg () ''Item deleted successfully'',
                  s\<lparr>items := filter (\<lambda>x. \<not> (item_id x = iid \<and> user_id x = Some uid)) (items s)\<rparr>)
          else deleteItem iid uid s = (Err 404 ''Item not found'', s)"
    using hit by (simp add: deleteItem_connected [OF assms] item_matches_Some)
  let ?s' = "snd (deleteItem iid uid s)"
  have c': "connected ?s'"
    using assms by (simp add: deleteItem_connected)
  have "filter (item_matches iid (Some uid)) (items ?s') = []"
    using assms by (simp add: deleteItem_connected filter_empty_conv)
  then show "deleteItem iid uid ?s' = (Err 404 ''Item not found'', ?s')"
    by (simp add: deleteItem_connected [OF c'])
qed

theorem deleteItem_owner_only_witness:
  "connected demo_store
   \<and> deleteItem 2 ''u1'' demo_store
       = (OkMsg () ''Item deleted successfully'', demo_store\<lparr>items := [maize, eggs]\<rparr>)
   \<and> deleteItem 2 ''u1'' (demo_store\<lparr>items := [maize, eggs]\<rparr>)
       = (Err 404 ''Item not found'', demo_store\<lparr>items := [maize, eggs]\<rparr>)
   \<and> deleteItem 3 ''u1'' demo_store = (Err 404 ''Item not found'', demo_store)"
proof -
  have c: "connected demo_store" by (simp add: demo_store_def)
  have d: "deleteItem 2 ''u1'' demo_store
       = (OkMsg () ''Item deleted successfully'', demo_store\<lparr>items := [maize, eggs]\<rparr>)"
    using deleteItem_owner_only [OF c, of 2 "''u1''"]
    by (simp add: demo_store_def maize_def beans_def eggs_def)
  have e: "deleteItem 2 ''u1'' (demo_store\<lparr>items := [maize, eggs]\<rparr>)
       = (Err 404 ''Item not found'', demo_store\<lparr>items := [maize, eggs]\<rparr>)"
    using deleteItem_owner_only [OF c, of 2 "''u1''"] by (simp add: d)
  have f: "deleteItem 3 ''u1'' demo_store = (Err 404 ''Item not found'', demo_store)"
    using deleteItem_owner_only [OF c, of 3 "''u1''"]
    by (simp add: demo_store_def maize_def beans_def eggs_def)
  from c d e f show ?thesis by simp
qed

subsection \<open>Goals\<close>

text \<open>A successful reply of the goal route fixes both statements' results.\<close>

lemma setGoal_OkMsg:
  assumes "setGoal sch nid now b s = (OkMsg r m, s')"
  shows "connected s \<and> goal_ok sch (new_goal nid now b)
    \<and> r = Some (new_goal nid now b) \<and> m = ''Goal set successfully''
    \<and> s' = s\<lparr>goals := filter (\<lambda>g. \<not> sql_eq (goal_user_id g) (goal_userId b)) (goals s)
                          @ [new_goal nid now b]\<rparr>"
  using assms
  by (auto simp: setGoal_def delete_goals_def insert_goal_def split: if_splits)

lemma setGoal_accepted:
  assumes "connected s" and "goal_ok sch (new_goal nid now b)"
  shows "setGoal sch nid now b s =
     (OkMsg (Some (new_goal nid now b)) ''Goal set successfully'',
      s\<lparr>goals := filter (\<lambda>g. \<not> sql_eq (goal_user_id g) (goal_userId b)) (goals s)
                    @ [new_goal nid now b]\<rparr>)"
  using assms by (simp add: setGoal_def delete_goals_def insert_goal_def)

lemma new_goal_columns:
  "goal_fields.truncate (new_goal nid now b) = goal_fields.truncate b
   \<and> goal_user_id (new_goal nid now b) = goal_userId b
   \<and> goal_id (new_goal nid now b) = nid \<and> goal_created_at (new_goal nid now b) = now"
  by (simp add: new_goal_def goal_fields.defs)

lemma owners_after_delete:
  "List.map_filter goal_user_id (filter (\<lambda>g. \<not> sql_eq (goal_user_id g) uid) gs)
     = filter (\<lambda>v. Some v \<noteq> uid) (List.map_filter goal_user_id gs)"
proof (induction gs)
  case Nil
  show ?case by (simp add: List.map_filter_simps)
next
  case (Cons g gs)
  then show ?case
    by (cases "goal_user_id g") (auto simp: List.map_filter_simps sql_eq_def)
qed

lemma one_goal_per_user_setGoal:
  assumes "setGoal sch nid now b s = (OkMsg r m, s')" and "one_goal_per_user s"
  shows "one_goal_per_user s'"
proof -
  let ?kept = "filter (\<lambda>g. \<not> sql_eq (goal_user_id g) (goal_userId b)) (goals s)"
  have s': "goals s' = ?kept @ [new_goal nid now b]"
    using setGoal_OkMsg [OF assms(1)] by simp
  have kept: "List.map_filter goal_user_id ?kept
        = filter (\<lambda>v. Some v \<noteq> goal_userId b) (List.map_filter goal_user_id (goals s))"
    by (rule owners_after_delete)
  have d: "distinct (List.map_filter goal_user_id ?kept)"
    using assms(2) by (simp add: kept one_goal_per_user_def)
  have gone: "u \<notin> set (List.map_filter goal_user_id ?kept)" if "goal_userId b = Some u" for u
    unfolding kept using that by simp
  show ?thesis
  proof (cases "goal_userId b")
    case None
    then show ?thesis
      using d by (simp add: one_goal_per_user_def s' List.map_filter_def new_goal_def)
  next
    case (Some u)
    with d gone [OF Some] show ?thesis
      by (simp add: one_goal_per_user_def s' List.map_filter_def new_goal_def)
  qed
qed

lemma goals_of_user_setGoal:
  assumes "setGoal sch nid now b s = (OkMsg r m, s')" and "goal_userId b = Some uid"
  shows "goals_of_user uid s' = [new_goal nid now b]"
  using setGoal_OkMsg [OF assms(1)] assms(2)
  by (simp add: goals_of_user_def sql_eq_Some new_goal_def filter_empty_conv)

text \<open>
  C4: a successful \<open>setGoal\<close> leaves the goals table as it was without the rows of
  that user, followed by the new row. After two successive successful calls for one user
  that user has exactly one goal row, with the fields of the second call; and a successful
  call keeps the invariant that no two goal rows carry the same user.
\<close>

theorem setGoal_replaces:
  "(setGoal sch n1 t1 b1 s = (OkMsg r1 m1, s1) \<and> setGoal sch n2 t2 b2 s1 = (OkMsg r2 m2, s2)
      \<and> goal_userId b1 = Some uid \<and> goal_userId b2 = Some uid
    \<longrightarrow> (\<exists>g. r2 = Some g \<and> goals_of_user uid s2 = [g]
            \<and> goal_fields.truncate g = goal_fields.truncate b2
            \<and> goal_user_id g = Some uid))
   \<and> (setGoal sch n1 t1 b1 s = (OkMsg r1 m1, s1) \<longrightarrow>
         goals s1 = filter (\<lambda>g. \<not> sql_eq (goal_user_id g) (goal_userId b1)) (goals s)
                      @ [new_goal n1 t1 b1]
         \<and> (goal_userId b1 = Some uid \<longrightarrow> length (goals_of_user uid s1) = 1)
         \<and> (one_goal_per_user s \<longrightarrow> one_goal_per_user s1))"
proof (intro conjI impI)
  assume "setGoal sch n1 t1 b1 s = (OkMsg r1 m1, s1) \<and> setGoal sch n2 t2 b2 s1 = (OkMsg r2 m2, s2)
      \<and> goal_userId b1 = Some uid \<and> goal_userId b2 = Some uid"
  then have second: "setGoal sch n2 t2 b2 s1 = (OkMsg r2 m2, s2)"
    and u: "goal_userId b2 = Some uid"
    by simp_all
  have "r2 = Some (new_goal n2 t2 b2)"
    using setGoal_OkMsg [OF second] by simp
  moreover have "goals_of_user uid s2 = [new_goal n2 t2 b2]"
    using second u by (rule goals_of_user_setGoal)
  moreover have "goal_fields.truncate (new_goal n2 t2 b2) = goal_fields.truncate b2"
    "goal_user_id (new_goal n2 t2 b2) = Some uid"
    by (simp_all add: new_goal_columns u)
  ultimately show "\<exists>g. r2 = Some g \<and> goals_of_user uid s2 = [g]
            \<and> goal_fields.truncate g = goal_fields.truncate b2
            \<and> goal_user_id g = Some uid"
    by blast
next
  assume first: "setGoal sch n1 t1 b1 s = (OkMsg r1 m1, s1)"
  show "goals s1 = filter (\<lambda>g. \<not> sql_eq (goal_user_id g) (goal_userId b1)) (goals s)
                      @ [new_goal n1 t1 b1]"
    using setGoal_OkMsg [OF first] by simp
  show "length (goals_of_user uid s1) = 1" if "goal_userId b1 = Some uid"
    using goals_of_user_setGoal [OF first that] by simp
  show "one_goal_per_user s1" if "one_goal_per_user s"
    using first that by (rule one_goal_per_user_setGoal)
qed

theorem setGoal_replaces_witness:
  "one_goal_per_user demo_store \<and> goals_of_user ''u1'' demo_store = [old_goal]
   \<and> goal_userId goal_body_a = Some ''u1'' \<and> goal_userId goal_body_b = Some ''u1''
   \<and> setGoal demo_schema 3 50 goal_body_a demo_store
       = (OkMsg (Some (new_goal 3 50 goal_body_a)) ''Goal set successfully'',
          demo_store\<lparr>goals := [other_goal, new_goal 3 50 goal_body_a]\<rparr>)
   \<and> setGoal demo_schema 4 60 goal_body_b
         (demo_store\<lparr>goals := [other_goal, new_goal 3 50 goal_body_a]\<rparr>)
       = (OkMsg (Some (new_goal 4 60 goal_body_b)) ''Goal set successfully'',
          demo_store\<lparr>goals := [other_goal, new_goal 4 60 goal_body_b]\<rparr>)
   \<and> goals_of_user ''u1'' (demo_store\<lparr>goals := [other_goal, new_goal 4 60 goal_body_b]\<rparr>)
       = [new_goal 4 60 goal_body_b]
   \<and> goal_fields.truncate (new_goal 4 60 goal_body_b) = goal_fields.truncate goal_body_b
   \<and> one_goal_per_user (demo_store\<lparr>goals := [other_goal, new_goal 3 50 goal_body_a]\<rparr>)"
proof -
  let ?s1 = "demo_store\<lparr>goals := [other_goal, new_goal 3 50 goal_body_a]\<rparr>"
  let ?s2 = "demo_store\<lparr>goals := [other_goal, new_goal 4 60 goal_body_b]\<rparr>"
  have c: "connected demo_store" and c1: "connected ?s1"
    by (simp_all add: demo_store_def)
  have inv: "one_goal_per_user demo_store"
    by (simp add: one_goal_per_user_def demo_store_def old_goal_def other_goal_def
        List.map_filter_def)
  have old: "goals_of_user ''u1'' demo_store = [old_goal]"
    by (simp add: goals_of_user_def demo_store_def old_goal_def other_goal_def)
  have u: "goal_userId goal_body_a = Some ''u1''" "goal_userId goal_body_b = Some ''u1''"
    by (simp_all add: goal_body_a_def goal_body_b_def)
  have ok: "goal_ok demo_schema (new_goal 3 50 goal_body_a)"
    "goal_ok demo_schema (new_goal 4 60 goal_body_b)"
    by (simp_all add: demo_schema_def new_goal_def goal_body_a_def goal_body_b_def)
  have first: "setGoal demo_schema 3 50 goal_body_a demo_store
       = (OkMsg (Some (new_goal 3 50 goal_body_a)) ''Goal set successfully'', ?s1)"
    by (subst setGoal_accepted [OF c ok(1)])
      (simp add: u sql_eq_Some demo_store_def old_goal_def other_goal_def)
  have second: "setGoal demo_schema 4 60 goal_body_b ?s1
       = (OkMsg (Some (new_goal 4 60 goal_body_b)) ''Goal set successfully'', ?s2)"
    by (subst setGoal_accepted [OF c1 ok(2)])
      (simp add: u sql_eq_Some new_goal_def other_goal_def goal_body_a_def)
  from setGoal_replaces [of demo_schema 3 50 goal_body_a demo_store
      "Some (new_goal 3 50 goal_body_a)" "''Goal set successfully''" ?s1
      4 60 goal_body_b "Some (new_goal 4 60 goal_body_b)" "''Goal set successfully''" ?s2
      "''u1''"]
  have "goals_of_user ''u1'' ?s2 = [new_goal 4 60 goal_body_b]
      \<and> goal_fields.truncate (new_goal 4 60 goal_body_b) = goal_fields.truncate goal_body_b
      \<and> one_goal_per_user ?s1"
    using first second u inv by auto
  with inv old u first second show ?thesis by simp
qed

text \<open>
  C10: a successful \<open>setGoal\<close> leaves the items and the settings of every user, and the
  goal rows of every user other than the one in the request, unchanged.
\<close>

theorem setGoal_frame:
  "setGoal sch nid now b s = (OkMsg r m, s') \<longrightarrow>
     items s' = items s \<and> user_settings s' = user_settings s
     \<and> (\<forall>v. goal_userId b \<noteq> Some v \<longrightarrow> goals_of_user v s' = goals_of_user v s)"
proof (intro impI conjI allI)
  assume ok: "setGoal sch nid now b s = (OkMsg r m, s')"
  note s' = setGoal_OkMsg [OF ok, THEN conjunct2, THEN conjunct2, THEN conjunct2, THEN conjunct2]
  show "items s' = items s" "user_settings s' = user_settings s"
    by (simp_all add: s')
  fix v
  assume other: "goal_userId b \<noteq> Some v"
  have "filter (\<lambda>g. goal_user_id g = Some v)
          (filter (\<lambda>g. \<not> sql_eq (goal_user_id g) (goal_userId b)) (goals s))
        = filter (\<lambda>g. goal_user_id g = Some v) (goals s)"
    using other by (auto simp: sql_eq_def intro!: filter_cong split: option.splits)
  with other show "goals_of_user v s' = goals_of_user v s"
    by (simp add: goals_of_user_def s' new_goal_def)
qed

theorem setGoal_frame_witness:
  "setGoal demo_schema 3 50 goal_body_a demo_store
       = (OkMsg (Some (new_goal 3 50 goal_body_a)) ''Goal set successfully'',
          demo_store\<lparr>goals := [other_goal, new_goal 3 50 goal_body_a]\<rparr>)
   \<and> goal_userId goal_body_a = Some ''u1''
   \<and> goals_of_user ''u2'' demo_store = [other_goal]
   \<and> goals_of_user ''u2'' (demo_store\<lparr>goals := [other_goal, new_goal 3 50 goal_body_a]\<rparr>)
       = [other_goal]
   \<and> items (demo_store\<lparr>goals := [other_goal, new_goal 3 50 goal_body_a]\<rparr>) = [maize, beans, eggs]
   \<and> user_settings (demo_store\<lparr>goals := [other_goal, new_goal 3 50 goal_body_a]\<rparr>)
       = [u1_settings]"
proof -
  let ?s1 = "demo_store\<lparr>goals := [other_goal, new_goal 3 50 goal_body_a]\<rparr>"
  have c: "connected demo_store" by (simp add: demo_store_def)
  have u: "goal_userId goal_body_a = Some ''u1''" by (simp add: goal_body_a_def)
  have ok: "goal_ok demo_schema (new_goal 3 50 goal_body_a)"
    by (simp add: demo_schema_def new_goal_def goal_body_a_def)
  have first: "setGoal demo_schema 3 50 goal_body_a demo_store
       = (OkMsg (Some (new_goal 3 50 goal_body_a)) ''Goal set successfully'', ?s1)"
    by (subst setGoal_accepted [OF c ok])
      (simp add: u sql_eq_Some demo_store_def old_goal_def other_goal_def)
  have theirs: "goals_of_user ''u2'' demo_store = [other_goal]"
    by (simp add: goals_of_user_def demo_store_def old_goal_def other_goal_def)
  from setGoal_frame [of demo_schema 3 50 goal_body_a demo_store
      "Some (new_goal 3 50 goal_body_a)" "''Goal set successfully''" ?s1] first
  have "items ?s1 = items demo_store \<and> user_settings ?s1 = user_settings demo_store
        \<and> goals_of_user ''u2'' ?s1 = goals_of_user ''u2'' demo_store"
    using u by simp
  then show ?thesis using first u theirs by (simp add: demo_store_def)
qed

subsection \<open>Users\<close>




text \<open>The smaller server creates a user whatever the request carries.\<close>

lemma server_initUser_creates:
  assumes "sv_connected t" and "sv_user_ok sch \<lparr>sv_id = newUserId, sv_user_created_at = now\<rparr>"
  shows "server_initUser sch err newUserId now t =
     (Ok newUserId, t\<lparr>sv_users := sv_users t @ [\<lparr>sv_id = newUserId, sv_user_created_at = now\<rparr>]\<rparr>)"
  using assms by (simp add: server_initUser_def)




end
